theory Spec2Isabelle
  imports Complex_Main "HOL-Library.Char_ord" "HOL-Library.List_Lexorder"
begin

section \<open>Python values, exceptions and strings\<close>

text \<open>
  The embedding follows \<^verbatim>\<open>src/mintpy/prep_isce.py\<close>.  A raised exception is the
  \<open>Inl\<close> of a sum (or \<open>Some\<close> of an \<open>error option\<close> where the function returns
  nothing).  Python floats are idealised as real numbers: no rounding.  The values that
  are no real number appear where numpy makes them: NaN in raster data and in the mean of
  an empty selection, and infinity or NaN as the quotient of a numpy float by zero, which
  numpy returns where a Python float raises.  Arithmetic on an infinity or a NaN held in a
  dict is beyond the model: \<open>py_num\<close> has no number for it, and an operation on it
  ends the model as one on a non-number does.
\<close>

datatype npfloat = Num real | NaN

datatype bval = BInt int | BFloat npfloat  \<comment> \<open>a component of a baseline: \<^verbatim>\<open>0\<close> or a float\<close>

type_synonym bdict = "string \<rightharpoonup> bval list"

datatype error =
    ValueError | TypeError | KeyError | IndexError | ZeroDivisionError | AttributeError
  | FileNotFoundError | SystemExit | UnboundLocalError | OverflowError | OtherError

record datetime =
  dt_hour :: int
  dt_minute :: int
  dt_second :: int
  dt_epoch :: real  \<comment> \<open>seconds on the time line, for differences of two datetimes\<close>

datatype pyval =
    VNone
  | VStr string
  | VBytes string
  | VInt int
  | VFloat real
  | VPosInf  \<comment> \<open>the float \<^verbatim>\<open>inf\<close>\<close>
  | VNegInf  \<comment> \<open>the float \<^verbatim>\<open>-inf\<close>\<close>
  | VNaN  \<comment> \<open>the float \<^verbatim>\<open>nan\<close>\<close>
  | VDateTime datetime

type_synonym dict = "string \<rightharpoonup> pyval"

definition startswith :: "string \<Rightarrow> string \<Rightarrow> bool" where
  "startswith s p = (take (length p) s = p)"

definition endswith :: "string \<Rightarrow> string \<Rightarrow> bool" where
  "endswith s p = (length p \<le> length s \<and> drop (length s - length p) s = p)"

fun contains :: "string \<Rightarrow> string \<Rightarrow> bool" where
  \<comment> \<open>\<^verbatim>\<open>sub in s\<close>\<close>
  "contains sub [] = (sub = [])"
| "contains sub (c # cs) = (startswith (c # cs) sub \<or> contains sub cs)"

function py_split_from :: "string \<Rightarrow> string \<Rightarrow> string \<Rightarrow> string list" where
  \<comment> \<open>\<^verbatim>\<open>s.split(sep)\<close> with the characters of the current field accumulated in reverse\<close>
  "py_split_from sep acc [] = [rev acc]"
| "py_split_from sep acc (c # cs) =
     (if sep \<noteq> [] \<and> startswith (c # cs) sep
      then rev acc # py_split_from sep [] (drop (length sep) (c # cs))
      else py_split_from sep (c # acc) cs)"
  by pat_completeness auto
termination
  by (relation "measure (\<lambda>(sep, acc, s). length s)") auto

definition py_split :: "string \<Rightarrow> string \<Rightarrow> string list" where
  "py_split s sep = py_split_from sep [] s"

definition py_slice_from :: "nat \<Rightarrow> string \<Rightarrow> string" where
  \<comment> \<open>\<^verbatim>\<open>s[n:]\<close>\<close>
  "py_slice_from n s = drop n s"

definition bindE :: "error + 'a \<Rightarrow> ('a \<Rightarrow> error + 'b) \<Rightarrow> error + 'b" where
  \<comment> \<open>run the rest unless an exception was raised\<close>
  "bindE r f = (case r of Inl err \<Rightarrow> Inl err | Inr x \<Rightarrow> f x)"

definition tryE :: "error + 'a \<Rightarrow> 's \<Rightarrow> ('a \<Rightarrow> error option \<times> 's) \<Rightarrow> error option \<times> 's" where
  \<comment> \<open>for code that updates an object in place: an exception leaves the object as it is then\<close>
  "tryE r s f = (case r of Inl err \<Rightarrow> (Some err, s) | Inr x \<Rightarrow> f x)"

definition seqE :: "error option \<times> 's \<Rightarrow> ('s \<Rightarrow> error option \<times> 's) \<Rightarrow> error option \<times> 's" where
  "seqE r f = (case r of (Some err, s) \<Rightarrow> (Some err, s) | (None, s) \<Rightarrow> f s)"

definition list_get :: "'a list \<Rightarrow> int \<Rightarrow> error + 'a" where
  \<comment> \<open>\<^verbatim>\<open>xs[i]\<close>: from the front, or from the end below zero; IndexError outside\<close>
  "list_get xs i =
     (if 0 \<le> i \<and> i < int (length xs) then Inr (xs ! nat i)
      else if i < 0 \<and> - int (length xs) \<le> i then Inr (xs ! nat (int (length xs) + i))
      else Inl IndexError)"

definition dict_get :: "('k \<rightharpoonup> 'v) \<Rightarrow> 'k \<Rightarrow> error + 'v" where
  \<comment> \<open>\<^verbatim>\<open>d[k]\<close>\<close>
  "dict_get d k = (case d k of None \<Rightarrow> Inl KeyError | Some v \<Rightarrow> Inr v)"

subsection \<open>\<^verbatim>\<open>os.path\<close> (posixpath)\<close>

definition sep :: char where
  "sep = CHR ''/''"

definition basename :: "string \<Rightarrow> string" where
  \<comment> \<open>\<^verbatim>\<open>p[p.rfind('/') + 1:]\<close>\<close>
  "basename p = rev (takeWhile (\<lambda>c. c \<noteq> sep) (rev p))"

definition dirname :: "string \<Rightarrow> string" where
  \<comment> \<open>\<^verbatim>\<open>head = p[:p.rfind('/') + 1]\<close>, stripped of trailing slashes unless it is all slashes\<close>
  "dirname p =
     (let head = rev (dropWhile (\<lambda>c. c \<noteq> sep) (rev p))
      in if head \<noteq> [] \<and> \<not> list_all (\<lambda>c. c = sep) head
         then rev (dropWhile (\<lambda>c. c = sep) (rev head))
         else head)"

definition join :: "string \<Rightarrow> string \<Rightarrow> string" where
  "join a b =
     (if startswith b [sep] then b
      else if a = [] \<or> endswith a [sep] then a @ b
      else a @ [sep] @ b)"

definition splitext_root :: "string \<Rightarrow> string" where
  \<comment> \<open>\<^verbatim>\<open>os.path.splitext(p)[0]\<close>: cut at the last dot of the last component,
      unless that component has only leading dots before it\<close>
  "splitext_root p =
     (let name = basename p;
          ext = rev (takeWhile (\<lambda>c. c \<noteq> CHR ''.'') (rev name));
          stem = take (length name - length ext - 1) name
      in if CHR ''.'' \<in> set name \<and> \<not> list_all (\<lambda>c. c = CHR ''.'') stem
         then take (length p - length ext - 1) p
         else p)"

section \<open>The environment and the file store\<close>

text \<open>
  A sidecar file holds key/value pairs and has a modification time.  The store maps a
  path to the file there; \<open>None\<close> is no file.
\<close>

record fileinfo =
  mtime :: nat
  pairs :: "string \<rightharpoonup> string"  \<comment> \<open>the key/value lines of a sidecar file\<close>

record state =
  files :: "string \<rightharpoonup> fileinfo"
  clock :: nat  \<comment> \<open>the time a file written now is stamped with\<close>
  multilook_default :: dict
    \<comment> \<open>the dict object made once for \<^verbatim>\<open>metadata=dict()\<close> of \<^verbatim>\<open>extract_multilook_number\<close>\<close>
  geometry_default :: dict
    \<comment> \<open>the same for \<^verbatim>\<open>extract_geometry_metadata\<close>\<close>

definition isfile :: "state \<Rightarrow> string \<Rightarrow> bool" where
  "isfile st p = (files st p \<noteq> None)"

subsection \<open>The ISCE object model\<close>

text \<open>
  Fields the program only copies are \<open>pyval\<close>; fields it computes with have the type
  the toolkit gives them.
\<close>

record statevector =
  getPosition :: "real list"
  getVelocity :: "real list"

record orbit =
  interpolateOrbit :: "datetime \<Rightarrow> error + statevector"
  getENUHeading :: "datetime \<Rightarrow> real"

record burst =
  burst_prf :: pyval
  burstStartUTC :: datetime
  burstStopUTC :: datetime
  burst_radarWavelength :: pyval
  burst_startingRange :: pyval
  burst_passDirection :: pyval
  burst_polarization :: pyval
  burst_trackNumber :: pyval
  burst_orbitNumber :: pyval
  burst_orbit :: orbit
  burst_sensingMid :: datetime
  azimuthTimeInterval :: real
  burst_rangePixelSize :: pyval
  swathNumber :: int

record product =
  bursts :: "burst list"
  ascendingNodeTime :: datetime

record frame =
  frame_PRF :: real
  sensingStart :: datetime
  sensingStop :: datetime
  frame_sensingMid :: datetime
  radarWavelegth :: pyval
  frame_startingRange :: pyval
  frame_polarization :: pyval
  frame_trackNumber :: pyval
  frame_orbitNumber :: pyval
  frame_orbit :: orbit
  antennaLength :: real
  pulseLength :: real
  chirpSlope :: real
  instrument_rangePixelSize :: pyval

datatype isce_obj = TopsProduct product | StripmapFrame frame

text \<open>The namespace argparse returns.\<close>

record inps =
  ifgramDir :: "string option"
  ifgramFiles :: "string list"
  metaFile :: "string option"
  baselineDir :: "string option"
  geometryDir :: "string option"
  inps_update_mode :: bool

text \<open>
  What the program reads through the standard library, the ISCE toolkit and the helper
  modules of \<^verbatim>\<open>mintpy.utils\<close> is a parameter of the model.
\<close>

record env =
  glob :: "string \<Rightarrow> string list"
  abspath :: "string \<Rightarrow> string"
  str_float :: "real \<Rightarrow> string"  \<comment> \<open>\<^verbatim>\<open>str\<close> of a float\<close>
  str_datetime :: "datetime \<Rightarrow> string"
  str_np :: "real \<Rightarrow> string"  \<comment> \<open>\<^verbatim>\<open>str\<close> of a numpy scalar\<close>
  int_of_str :: "string \<Rightarrow> int option"  \<comment> \<open>\<^verbatim>\<open>int\<close> of a string, \<open>None\<close> for ValueError\<close>
  read_isce_xml :: "string \<Rightarrow> error + dict"  \<comment> \<open>\<^verbatim>\<open>readfile.read_isce_xml\<close>\<close>
  read_attribute :: "(string \<rightharpoonup> fileinfo) \<Rightarrow> string \<Rightarrow> string option \<Rightarrow> error + dict"
    \<comment> \<open>\<^verbatim>\<open>readfile.read_attribute(fname, metafile_ext)\<close>, which may look at sidecar files\<close>
  read_data :: "string \<Rightarrow> string option \<Rightarrow> error + npfloat list list"
    \<comment> \<open>\<^verbatim>\<open>readfile.read(fname, datasetName)[0]\<close>, a 2D array as its rows\<close>
  standardize_metadata :: "dict \<Rightarrow> dict"  \<comment> \<open>\<^verbatim>\<open>readfile.standardize_metadata\<close>\<close>
  read_lines :: "string \<Rightarrow> error + string list"  \<comment> \<open>the lines of a text file\<close>
  float_of_str :: "string \<Rightarrow> npfloat option"  \<comment> \<open>\<^verbatim>\<open>float\<close> of a string, \<open>None\<close> for ValueError\<close>
  read_template :: "string \<Rightarrow> error + (string \<rightharpoonup> string)"
    \<comment> \<open>\<^verbatim>\<open>readfile.read_template(fname, delimiter=' ')\<close>\<close>
  most_common :: "string list \<Rightarrow> string"  \<comment> \<open>\<^verbatim>\<open>ut.most_common\<close>\<close>
  parse_args :: "string list \<Rightarrow> error + inps"  \<comment> \<open>the argparse parser of \<^verbatim>\<open>create_parser\<close>\<close>
  loadProduct :: "string \<Rightarrow> error + isce_obj"  \<comment> \<open>ProductManager.loadProduct\<close>
  shelve_frame :: "string \<Rightarrow> error + isce_obj"  \<comment> \<open>\<^verbatim>\<open>shelve.open(fbase, flag='r')['frame']\<close>\<close>
  xyz_to_llh :: "real list \<Rightarrow> real \<times> real \<times> real"  \<comment> \<open>Earth ellipsoid\<close>
  pegRadCur :: "real \<Rightarrow> real \<Rightarrow> real \<Rightarrow> real"
    \<comment> \<open>the ellipsoid's \<^verbatim>\<open>pegRadCur\<close> after \<^verbatim>\<open>setSCH(lat, lon, heading)\<close>\<close>

subsection \<open>\<^verbatim>\<open>str\<close>, \<^verbatim>\<open>int\<close> and arithmetic on Python values\<close>

fun str_nat :: "nat \<Rightarrow> string" where
  "str_nat n =
     (if n < 10 then [char_of (48 + n)]
      else str_nat (n div 10) @ [char_of (48 + n mod 10)])"

definition str_int :: "int \<Rightarrow> string" where
  "str_int i = (if i < 0 then CHR ''-'' # str_nat (nat (- i)) else str_nat (nat i))"

definition quote :: char where
  "quote = CHR 0x27"

fun py_str :: "env \<Rightarrow> pyval \<Rightarrow> string" where
  "py_str e VNone = ''None''"
| "py_str e (VStr s) = s"
| "py_str e (VBytes b) = CHR ''b'' # quote # b @ [quote]"  \<comment> \<open>printable bytes without quotes\<close>
| "py_str e (VInt i) = str_int i"
| "py_str e (VFloat r) = str_float e r"
| "py_str e VPosInf = ''inf''"
| "py_str e VNegInf = ''-inf''"
| "py_str e VNaN = ''nan''"
| "py_str e (VDateTime d) = str_datetime e d"

definition trunc :: "real \<Rightarrow> int" where
  \<comment> \<open>\<^verbatim>\<open>int(x)\<close> of a float: towards zero\<close>
  "trunc r = (if 0 \<le> r then \<lfloor>r\<rfloor> else \<lceil>r\<rceil>)"

definition py_int :: "env \<Rightarrow> pyval \<Rightarrow> error + int" where
  \<comment> \<open>\<^verbatim>\<open>int(v)\<close>\<close>
  "py_int e v =
     (case v of
        VInt i \<Rightarrow> Inr i
      | VFloat r \<Rightarrow> Inr (trunc r)
      | VStr s \<Rightarrow> (case int_of_str e s of None \<Rightarrow> Inl ValueError | Some i \<Rightarrow> Inr i)
      | VBytes s \<Rightarrow> (case int_of_str e s of None \<Rightarrow> Inl ValueError | Some i \<Rightarrow> Inr i)
      | VPosInf \<Rightarrow> Inl OverflowError
      | VNegInf \<Rightarrow> Inl OverflowError
      | VNaN \<Rightarrow> Inl ValueError
      | _ \<Rightarrow> Inl TypeError)"

fun py_num :: "pyval \<Rightarrow> real option" where
  \<comment> \<open>the real number a value stands for\<close>
  "py_num (VInt i) = Some (of_int i)"
| "py_num (VFloat r) = Some r"
| "py_num _ = None"

definition py_truediv :: "pyval \<Rightarrow> pyval \<Rightarrow> error + pyval" where
  \<comment> \<open>\<^verbatim>\<open>a / b\<close>\<close>
  "py_truediv a b =
     (case (py_num a, py_num b) of
        (Some x, Some y) \<Rightarrow> if y = 0 then Inl ZeroDivisionError else Inr (VFloat (x / y))
      | _ \<Rightarrow> Inl TypeError)"

fun py_mul :: "pyval \<Rightarrow> pyval \<Rightarrow> error + pyval" where
  \<comment> \<open>\<^verbatim>\<open>a * b\<close>: numbers, or a string repeated\<close>
  "py_mul (VInt i) (VInt j) = Inr (VInt (i * j))"
| "py_mul (VInt i) (VFloat y) = Inr (VFloat (of_int i * y))"
| "py_mul (VFloat x) (VInt j) = Inr (VFloat (x * of_int j))"
| "py_mul (VFloat x) (VFloat y) = Inr (VFloat (x * y))"
| "py_mul (VStr s) (VInt n) = Inr (VStr (concat (replicate (nat n) s)))"
| "py_mul (VInt n) (VStr s) = Inr (VStr (concat (replicate (nat n) s)))"
| "py_mul (VBytes s) (VInt n) = Inr (VBytes (concat (replicate (nat n) s)))"
| "py_mul (VInt n) (VBytes s) = Inr (VBytes (concat (replicate (nat n) s)))"
| "py_mul _ _ = Inl TypeError"

definition norm2 :: "real list \<Rightarrow> real" where
  \<comment> \<open>\<^verbatim>\<open>np.linalg.norm\<close> of a vector\<close>
  "norm2 v = sqrt (sum_list (map (\<lambda>x. x * x) v))"

section \<open>Detection of the processor and extraction from the scene metadata\<close>

definition TOPS_RESOLUTION :: "string \<rightharpoonup> (string \<rightharpoonup> real)" where
  "TOPS_RESOLUTION = map_of
     [(''IW1'', map_of [(''rangeResolution'', 2.7), (''azimuthResolution'', 22.5),
                        (''rangePixelSize'', 2.3), (''azimuthPixelSize'', 14.1)]),
      (''IW2'', map_of [(''rangeResolution'', 3.1), (''azimuthResolution'', 22.7),
                        (''rangePixelSize'', 2.3), (''azimuthPixelSize'', 14.1)]),
      (''IW3'', map_of [(''rangeResolution'', 3.5), (''azimuthResolution'', 22.6),
                        (''rangePixelSize'', 2.3), (''azimuthPixelSize'', 14.1)])]"


definition get_processor :: "env \<Rightarrow> state \<Rightarrow> string option \<Rightarrow> error + string" where
  \<comment> \<open>the argument is \<open>None\<close> when main passes an absent \<^verbatim>\<open>-m\<close>: \<^verbatim>\<open>os.path.dirname(None)\<close>
      raises TypeError\<close>
  "get_processor e st meta =
     (case meta of
        None \<Rightarrow> Inl TypeError
      | Some meta_file \<Rightarrow>
          (let meta_dir = dirname meta_file;
               tops_meta_file = join meta_dir ''IW*.xml'';
               stripmap_meta_file = join meta_dir ''data.dat''
           in if length (glob e tops_meta_file) > 0 then Inr ''tops''
              else if isfile st stripmap_meta_file then Inr ''stripmap''
              else if endswith meta_file ''.xml'' then Inr ''stripmap''
              else Inl ValueError))"

definition load_product :: "env \<Rightarrow> string \<Rightarrow> error + isce_obj" where
  "load_product e xmlname = loadProduct e xmlname"

definition obj_bursts :: "isce_obj \<Rightarrow> error + burst list" where
  \<comment> \<open>\<^verbatim>\<open>obj.bursts\<close>: a frame has no such attribute\<close>
  "obj_bursts obj = (case obj of TopsProduct p \<Rightarrow> Inr (bursts p) | StripmapFrame f \<Rightarrow> Inl AttributeError)"

definition obj_ascendingNodeTime :: "isce_obj \<Rightarrow> error + datetime" where
  "obj_ascendingNodeTime obj =
     (case obj of TopsProduct p \<Rightarrow> Inr (ascendingNodeTime p) | StripmapFrame f \<Rightarrow> Inl AttributeError)"

fun swath_numbers :: "env \<Rightarrow> string list \<Rightarrow> error + int list" where
  \<comment> \<open>\<^verbatim>\<open>[load_product(fname).bursts[0].swathNumber for fname in xml_files]\<close>\<close>
  "swath_numbers e [] = Inr []"
| "swath_numbers e (fname # rest) =
     (case bindE (bindE (load_product e fname) obj_bursts) (\<lambda>bs. list_get bs 0) of
        Inl err \<Rightarrow> Inl err
      | Inr b \<Rightarrow>
          (case swath_numbers e rest of
             Inl err \<Rightarrow> Inl err
           | Inr ns \<Rightarrow> Inr (swathNumber b # ns)))"

definition time_seconds :: "datetime \<Rightarrow> real" where
  \<comment> \<open>\<^verbatim>\<open>t.hour * 3600.0 + t.minute * 60.0 + t.second\<close>\<close>
  "time_seconds t = of_int (dt_hour t) * 3600 + of_int (dt_minute t) * 60 + of_int (dt_second t)"

definition total_seconds :: "datetime \<Rightarrow> datetime \<Rightarrow> real" where
  \<comment> \<open>\<^verbatim>\<open>(a - b).total_seconds()\<close>\<close>
  "total_seconds a b = dt_epoch a - dt_epoch b"

definition extract_tops_metadata :: "env \<Rightarrow> string \<Rightarrow> error + dict \<times> burst" where
  "extract_tops_metadata e xml_file =
     bindE (load_product e xml_file) (\<lambda>obj.
     bindE (obj_bursts obj) (\<lambda>bs.
     bindE (list_get bs 0) (\<lambda>burst.
     bindE (list_get bs (- 1)) (\<lambda>burstEnd.
     let metadata = Map.empty;
         metadata = metadata(''prf'' \<mapsto> burst_prf burst);
         metadata = metadata(''startUTC'' \<mapsto> VDateTime (burstStartUTC burst));
         metadata = metadata(''stopUTC'' \<mapsto> VDateTime (burstStopUTC burstEnd));
         metadata = metadata(''radarWavelength'' \<mapsto> burst_radarWavelength burst);
         metadata = metadata(''startingRange'' \<mapsto> burst_startingRange burst);
         metadata = metadata(''passDirection'' \<mapsto> burst_passDirection burst);
         metadata = metadata(''polarization'' \<mapsto> burst_polarization burst);
         metadata = metadata(''trackNumber'' \<mapsto> burst_trackNumber burst);
         metadata = metadata(''orbitNumber'' \<mapsto> burst_orbitNumber burst);
         metadata = metadata(''CENTER_LINE_UTC'' \<mapsto> VFloat (time_seconds (burstStartUTC burst)));
         orbit = burst_orbit burst
     in
     bindE (interpolateOrbit orbit (burst_sensingMid burst)) (\<lambda>peg.
     let Vs = norm2 (getVelocity peg);
         metadata = metadata(''azimuthPixelSize'' \<mapsto> VFloat (Vs * azimuthTimeInterval burst));
         metadata = metadata(''rangePixelSize'' \<mapsto> burst_rangePixelSize burst);
         iw_str = (if startswith (basename xml_file) ''IW''
                   then splitext_root (basename xml_file) else ''IW2'')
     in
     bindE (bindE (dict_get TOPS_RESOLUTION iw_str) (\<lambda>t. dict_get t ''azimuthResolution'')) (\<lambda>azres.
     bindE (bindE (dict_get TOPS_RESOLUTION iw_str) (\<lambda>t. dict_get t ''rangeResolution'')) (\<lambda>rgres.
     let metadata = metadata(''azimuthResolution'' \<mapsto> VFloat azres);
         metadata = metadata(''rangeResolution'' \<mapsto> VFloat rgres);
         (lat, lon, hgt) = xyz_to_llh e (getPosition peg);
         metadata = metadata(''earthRadius'' \<mapsto>
                      VFloat (pegRadCur e lat lon (getENUHeading orbit (burst_sensingMid burst))));
         metadata = metadata(''altitude'' \<mapsto> VFloat hgt);
         metadata = metadata(''beam_mode'' \<mapsto> VStr ''IW'');
         metadata = metadata(''swathNumber'' \<mapsto> VInt (swathNumber burst));
         xml_files = glob e (join (dirname xml_file) ''IW*.xml'')
     in
     bindE (if length xml_files > 1
            then bindE (swath_numbers e xml_files) (\<lambda>swath_num.
                   Inr (metadata(''swathNumber'' \<mapsto> VStr (concat (map str_int (sort swath_num))))))
            else Inr metadata) (\<lambda>metadata.
     bindE (obj_ascendingNodeTime obj) (\<lambda>node.
     let metadata = metadata(''firstFrameNumber'' \<mapsto>
                      VInt (trunc (0.2 * total_seconds (burstStartUTC burst) node)));
         metadata = metadata(''lastFrameNumber'' \<mapsto>
                      VInt (trunc (0.2 * total_seconds (burstStopUTC burstEnd) node)))
     in Inr (metadata, burst))))))))))"

definition SPEED_OF_LIGHT :: real where
  "SPEED_OF_LIGHT = 299792458"

definition float_div :: "real \<Rightarrow> real \<Rightarrow> error + real" where
  \<comment> \<open>\<^verbatim>\<open>a / b\<close> on Python ints and floats: a zero divisor raises ZeroDivisionError\<close>
  "float_div a b = (if b = 0 then Inl ZeroDivisionError else Inr (a / b))"

definition np_div :: "real \<Rightarrow> real \<Rightarrow> pyval" where
  \<comment> \<open>\<^verbatim>\<open>a / b\<close> where \<^verbatim>\<open>a\<close> is a numpy float: it never raises; at a zero divisor (the
      reals have one zero, taken as \<^verbatim>\<open>+0.0\<close>) numpy warns and returns an infinity of the
      sign of \<^verbatim>\<open>a\<close>, or NaN for \<^verbatim>\<open>0 / 0\<close>\<close>
  "np_div a b =
     (if b \<noteq> 0 then VFloat (a / b)
      else if 0 < a then VPosInf
      else if a < 0 then VNegInf
      else VNaN)"

definition extract_stripmap_metadata :: "env \<Rightarrow> string \<Rightarrow> error + dict \<times> frame" where
  "extract_stripmap_metadata e meta_file =
     bindE (if basename meta_file = ''data.dat''
            then shelve_frame e (splitext_root meta_file)
            else if endswith meta_file ''.xml''
            then load_product e meta_file
            else Inl ValueError) (\<lambda>loaded.
     bindE (case loaded of StripmapFrame f \<Rightarrow> Inr f | TopsProduct p \<Rightarrow> Inl AttributeError) (\<lambda>frame.
     let metadata = Map.empty;
         metadata = metadata(''prf'' \<mapsto> VFloat (frame_PRF frame));
         metadata = metadata(''startUTC'' \<mapsto> VDateTime (sensingStart frame));
         metadata = metadata(''stopUTC'' \<mapsto> VDateTime (sensingStop frame));
         metadata = metadata(''radarWavelength'' \<mapsto> radarWavelegth frame);
         metadata = metadata(''startingRange'' \<mapsto> frame_startingRange frame);
         pol = filter (\<lambda>c. c \<noteq> CHR ''/'') (py_str e (frame_polarization frame));
         pol = (if startswith pol [CHR ''b'', quote] then take 2 (drop 2 pol) else pol);
         metadata = metadata(''polarization'' \<mapsto> VStr pol);
         metadata = metadata(''trackNumber'' \<mapsto> frame_trackNumber frame);
         metadata = metadata(''orbitNumber'' \<mapsto> frame_orbitNumber frame);
         metadata = metadata(''CENTER_LINE_UTC'' \<mapsto> VFloat (time_seconds (sensingStart frame)));
         orbit = frame_orbit frame
     in
     bindE (interpolateOrbit orbit (frame_sensingMid frame)) (\<lambda>peg.
     let Vs = norm2 (getVelocity peg);
         metadata = metadata(''azimuthResolution'' \<mapsto> VFloat (antennaLength frame / 2));
         metadata = metadata(''azimuthPixelSize'' \<mapsto> np_div Vs (frame_PRF frame));
         rgBandwidth = pulseLength frame * chirpSlope frame
     in
     bindE (float_div SPEED_OF_LIGHT (2 * rgBandwidth)) (\<lambda>q.
     let metadata = metadata(''rangeResolution'' \<mapsto> VFloat \<bar>q\<bar>);
         metadata = metadata(''rangePixelSize'' \<mapsto> instrument_rangePixelSize frame);
         (lat, lon, hgt) = xyz_to_llh e (getPosition peg);
         metadata = metadata(''earthRadius'' \<mapsto>
                      VFloat (pegRadCur e lat lon (getENUHeading orbit (frame_sensingMid frame))));
         metadata = metadata(''altitude'' \<mapsto> VFloat hgt);
         metadata = metadata(''beam_mode'' \<mapsto> VStr ''SM'')
     in Inr (metadata, frame)))))"

section \<open>Metadata from the geometry files\<close>

text \<open>
  \<^verbatim>\<open>extract_multilook_number\<close> and \<^verbatim>\<open>extract_geometry_metadata\<close> update the dict they
  are given in place and return that same object.  The model takes the content of the
  dict and returns the exception raised, if any, with the content of the dict after the
  call: what was stored before an exception stays stored.
\<close>

definition looks :: "env \<Rightarrow> dict \<Rightarrow> dict \<Rightarrow> string \<Rightarrow> error + int" where
  \<comment> \<open>\<^verbatim>\<open>int(int(fullXmlDict[key]) / int(xmlDict[key]))\<close>\<close>
  "looks e fullXmlDict xmlDict key =
     bindE (bindE (dict_get fullXmlDict key) (py_int e)) (\<lambda>full.
     bindE (bindE (dict_get xmlDict key) (py_int e)) (\<lambda>part.
     bindE (float_div (of_int full) (of_int part)) (\<lambda>q. Inr (trunc q))))"

fun multilook_loop :: "env \<Rightarrow> state \<Rightarrow> string \<Rightarrow> string list \<Rightarrow> dict \<Rightarrow> error option \<times> dict" where
  \<comment> \<open>the loop over \<^verbatim>\<open>['hgt','lat','lon','los']\<close>, left at the first file with a
      \<^verbatim>\<open>.full.xml\<close> beside it\<close>
  "multilook_loop e st geom_dir [] metadata = (None, metadata)"
| "multilook_loop e st geom_dir (fb # rest) metadata =
     (let fbase = join geom_dir fb;
          fnames = glob e (fbase @ ''*.rdr'') @ glob e (fbase @ ''*.geo'')
      in case fnames of
           [] \<Rightarrow> multilook_loop e st geom_dir rest metadata
         | fname0 # _ \<Rightarrow>
             (let fullXmlFile = fname0 @ ''.full.xml''
              in if isfile st fullXmlFile
                 then tryE (read_isce_xml e fullXmlFile) metadata (\<lambda>fullXmlDict.
                      tryE (read_attribute e (files st) fname0 None) metadata (\<lambda>xmlDict.
                      tryE (looks e fullXmlDict xmlDict ''LENGTH'') metadata (\<lambda>al.
                      let metadata = metadata(''ALOOKS'' \<mapsto> VInt al)
                      in tryE (looks e fullXmlDict xmlDict ''WIDTH'') metadata (\<lambda>rl.
                         (None, metadata(''RLOOKS'' \<mapsto> VInt rl))))))
                 else multilook_loop e st geom_dir rest metadata))"

definition set_default :: "string \<Rightarrow> dict \<Rightarrow> dict" where
  \<comment> \<open>\<^verbatim>\<open>if key not in metadata: metadata[key] = 1\<close>\<close>
  "set_default key metadata = (if metadata key = None then metadata(key \<mapsto> VInt 1) else metadata)"

definition ratio :: "dict \<Rightarrow> string \<Rightarrow> string \<Rightarrow> error + pyval" where
  \<comment> \<open>\<^verbatim>\<open>metadata[a] / metadata[b]\<close>\<close>
  "ratio metadata a b =
     bindE (dict_get metadata a) (\<lambda>x. bindE (dict_get metadata b) (\<lambda>y. py_truediv x y))"

definition ncorrlooks :: "dict \<Rightarrow> pyval \<Rightarrow> pyval \<Rightarrow> error + pyval" where
  \<comment> \<open>\<^verbatim>\<open>metadata['RLOOKS'] * metadata['ALOOKS'] / (rgfact * azfact)\<close>\<close>
  "ncorrlooks metadata rgfact azfact =
     bindE (dict_get metadata ''RLOOKS'') (\<lambda>rl.
     bindE (dict_get metadata ''ALOOKS'') (\<lambda>al.
     bindE (py_mul rl al) (\<lambda>n.
     bindE (py_mul rgfact azfact) (\<lambda>d. py_truediv n d))))"

definition extract_multilook_number :: "env \<Rightarrow> state \<Rightarrow> string \<Rightarrow> dict \<Rightarrow> error option \<times> dict" where
  "extract_multilook_number e st geom_dir metadata =
     seqE (multilook_loop e st geom_dir [''hgt'', ''lat'', ''lon'', ''los''] metadata) (\<lambda>metadata.
     let metadata = set_default ''ALOOKS'' metadata;
         metadata = set_default ''RLOOKS'' metadata
     in tryE (ratio metadata ''rangeResolution'' ''rangePixelSize'') metadata (\<lambda>rgfact.
        tryE (ratio metadata ''azimuthResolution'' ''azimuthPixelSize'') metadata (\<lambda>azfact.
        tryE (ncorrlooks metadata rgfact azfact) metadata (\<lambda>n.
        (None, metadata(''NCORRLOOKS'' \<mapsto> n))))))"

definition nonzero :: "npfloat \<Rightarrow> bool" where
  \<comment> \<open>the truth value of a number, and \<^verbatim>\<open>x != 0.\<close>: NaN is not zero\<close>
  "nonzero x = (x \<noteq> Num 0)"

definition get_nonzero_row_number :: "npfloat list list \<Rightarrow> error + int \<times> int" where
  \<comment> \<open>with \<^verbatim>\<open>buffer=2\<close>, the only value it is called with\<close>
  "get_nonzero_row_number data =
     (if list_all (list_all nonzero) data then Inr (0 + 2, - 1 - 2)
      else
        (let row_idx = filter (\<lambda>i. list_all nonzero (data ! i)) [0..<length data] in
         bindE (list_get row_idx 0) (\<lambda>first.
         bindE (list_get row_idx (- 1)) (\<lambda>final.
         Inr (int first + 2, int final - 2)))))"

definition array_get :: "npfloat list list \<Rightarrow> int \<Rightarrow> int \<Rightarrow> error + npfloat" where
  \<comment> \<open>\<^verbatim>\<open>data[r, c]\<close>\<close>
  "array_get data r c = bindE (list_get data r) (\<lambda>row. list_get row c)"

definition str_pixel :: "env \<Rightarrow> npfloat \<Rightarrow> string" where
  "str_pixel e x = (case x of Num r \<Rightarrow> str_np e r | NaN \<Rightarrow> ''nan'')"

definition corner_refs :: "env \<Rightarrow> string \<Rightarrow> string \<Rightarrow> dict \<Rightarrow> error option \<times> dict" where
  \<comment> \<open>the four \<^verbatim>\<open>LAT_REF\<close> (or \<^verbatim>\<open>LON_REF\<close>) entries of one file\<close>
  "corner_refs e geom_file key metadata =
     tryE (read_data e geom_file None) metadata (\<lambda>data.
     tryE (get_nonzero_row_number data) metadata (\<lambda>(r0, r1).
     tryE (array_get data r0 0) metadata (\<lambda>v1.
     let metadata = metadata(key @ ''1'' \<mapsto> VStr (str_pixel e v1)) in
     tryE (array_get data r0 (- 1)) metadata (\<lambda>v2.
     let metadata = metadata(key @ ''2'' \<mapsto> VStr (str_pixel e v2)) in
     tryE (array_get data r1 0) metadata (\<lambda>v3.
     let metadata = metadata(key @ ''3'' \<mapsto> VStr (str_pixel e v3)) in
     tryE (array_get data r1 (- 1)) metadata (\<lambda>v4.
     (None, metadata(key @ ''4'' \<mapsto> VStr (str_pixel e v4)))))))))"

definition nanmean :: "npfloat list list \<Rightarrow> npfloat" where
  \<comment> \<open>\<^verbatim>\<open>np.nanmean\<close>: the mean of the entries that are numbers, NaN when there is none\<close>
  "nanmean data =
     (let xs = concat (map (\<lambda>row. concat (map (\<lambda>x. case x of Num r \<Rightarrow> [r] | NaN \<Rightarrow> []) row)) data)
      in if xs = [] then NaN else Num (sum_list xs / of_nat (length xs)))"

definition np_round :: "real \<Rightarrow> real" where
  \<comment> \<open>\<^verbatim>\<open>np.round\<close>: to the nearest integer, a half to the even one\<close>
  "np_round x =
     (let f = \<lfloor>x\<rfloor>; d = x - of_int f
      in if d < 1 / 2 then of_int f
         else if 1 / 2 < d then of_int (f + 1)
         else if even f then of_int f else of_int (f + 1))"

definition heading :: "npfloat list list \<Rightarrow> npfloat" where
  \<comment> \<open>zero pixels become NaN, then the azimuth angle is turned into the orbit heading\<close>
  "heading data =
     (let data = map (map (\<lambda>x. if x = Num 0 then NaN else x)) data
      in case nanmean data of
           NaN \<Rightarrow> NaN
         | Num az_angle \<Rightarrow>
             (let head_angle = - 1 * (270 + az_angle);
                  head_angle = head_angle - np_round (head_angle / 360) * 360
              in Num head_angle))"

definition geometry_file :: "env \<Rightarrow> string \<Rightarrow> dict \<Rightarrow> error option \<times> dict" where
  \<comment> \<open>the body of the loop over the geometry files\<close>
  "geometry_file e geom_file metadata =
     seqE (if contains ''lat'' (basename geom_file)
           then corner_refs e geom_file ''LAT_REF'' metadata else (None, metadata)) (\<lambda>metadata.
     seqE (if contains ''lon'' (basename geom_file)
           then corner_refs e geom_file ''LON_REF'' metadata else (None, metadata)) (\<lambda>metadata.
     if contains ''los'' (basename geom_file)
     then tryE (read_data e geom_file (Some ''az'')) metadata (\<lambda>data.
          (None, metadata(''HEADING'' \<mapsto> VStr (str_pixel e (heading data)))))
     else (None, metadata)))"

fun geometry_loop :: "env \<Rightarrow> string list \<Rightarrow> dict \<Rightarrow> error option \<times> dict" where
  "geometry_loop e [] metadata = (None, metadata)"
| "geometry_loop e (geom_file # rest) metadata =
     (case geometry_file e geom_file metadata of
        (Some err, metadata) \<Rightarrow> (Some err, metadata)
      | (None, metadata) \<Rightarrow> geometry_loop e rest metadata)"

definition scale_by :: "string \<Rightarrow> string \<Rightarrow> dict \<Rightarrow> error option \<times> dict" where
  \<comment> \<open>\<^verbatim>\<open>metadata[key] *= metadata[by]\<close>\<close>
  "scale_by key by metadata =
     tryE (bindE (dict_get metadata key) (\<lambda>x. bindE (dict_get metadata by) (\<lambda>y. py_mul x y)))
       metadata (\<lambda>v. (None, metadata(key \<mapsto> v)))"

definition extract_geometry_metadata :: "env \<Rightarrow> state \<Rightarrow> string \<Rightarrow> dict \<Rightarrow> error option \<times> dict" where
  "extract_geometry_metadata e st geom_dir metadata =
     (let geom_files = map (\<lambda>i. join (abspath e geom_dir) (i @ ''.rdr''))
                         [''hgt'', ''lat'', ''lon'', ''los''];
          geom_files = filter (isfile st) geom_files
      in seqE (extract_multilook_number e st geom_dir metadata) (\<lambda>metadata.
         seqE (scale_by ''rangePixelSize'' ''RLOOKS'' metadata) (\<lambda>metadata.
         seqE (scale_by ''azimuthPixelSize'' ''ALOOKS'' metadata) (\<lambda>metadata.
         geometry_loop e geom_files metadata))))"

text \<open>Calls that leave \<^verbatim>\<open>metadata\<close> to its default use the one dict object of the module.\<close>

definition extract_multilook_number_default :: "env \<Rightarrow> state \<Rightarrow> string \<Rightarrow> (error option \<times> dict) \<times> state" where
  "extract_multilook_number_default e st geom_dir =
     (let (err, metadata) = extract_multilook_number e st geom_dir (multilook_default st)
      in ((err, metadata), st\<lparr>multilook_default := metadata\<rparr>))"

definition extract_geometry_metadata_default :: "env \<Rightarrow> state \<Rightarrow> string \<Rightarrow> (error option \<times> dict) \<times> state" where
  "extract_geometry_metadata_default e st geom_dir =
     (let (err, metadata) = extract_geometry_metadata e st geom_dir (geometry_default st)
      in ((err, metadata), st\<lparr>geometry_default := metadata\<rparr>))"

section \<open>The sidecar files\<close>

definition run_or_skip :: "state \<Rightarrow> string \<Rightarrow> string \<Rightarrow> string" where
  \<comment> \<open>Modelled from the spec: \<^verbatim>\<open>ut.run_or_skip(out_file, in_file, check_readable=False)\<close> is
      not in the source file.  The spec has an update-skip when outputs are already
      current, with a freshness check against file modification times: skip when the
      output exists and the input is not newer (an absent input has no time to compare).\<close>
  "run_or_skip st out_file in_file =
     (case files st out_file of
        None \<Rightarrow> ''run''
      | Some fo \<Rightarrow>
          (case files st in_file of
             None \<Rightarrow> ''skip''
           | Some fi \<Rightarrow> if mtime fo < mtime fi then ''run'' else ''skip''))"

definition read_roipac_rsc :: "state \<Rightarrow> string \<Rightarrow> error + dict" where
  \<comment> \<open>Modelled from the spec: \<^verbatim>\<open>readfile.read_roipac_rsc\<close> is not in the source file.  The
      sidecar file holds flat string-valued key/value pairs; reading gives them back.\<close>
  "read_roipac_rsc st fname =
     (case files st fname of
        None \<Rightarrow> Inl FileNotFoundError
      | Some f \<Rightarrow> Inr (\<lambda>k. map_option VStr (pairs f k)))"

definition serialize :: "env \<Rightarrow> dict \<Rightarrow> (string \<rightharpoonup> string)" where
  "serialize e metadata = (\<lambda>k. map_option (py_str e) (metadata k))"

definition write_roipac_rsc :: "env \<Rightarrow> dict \<Rightarrow> string \<Rightarrow> bool \<Rightarrow> state \<Rightarrow> state" where
  \<comment> \<open>Modelled from the spec: \<^verbatim>\<open>writefile.write_roipac_rsc(metadata, out_file, update_mode)\<close>
      is not in the source file.  The spec serializes the metadata as flat string-valued
      key/value pairs into the sidecar file, and skips the work in update mode when the
      output is already current: when the file there already holds every pair.\<close>
  "write_roipac_rsc e metadata out_file update_mode st =
     (if update_mode \<and>
         (case files st out_file of None \<Rightarrow> False | Some f \<Rightarrow> serialize e metadata \<subseteq>\<^sub>m pairs f)
      then st
      else st\<lparr>files := (files st)(out_file \<mapsto> \<lparr>mtime = clock st, pairs = serialize e metadata\<rparr>)\<rparr>)"

section \<open>\<^verbatim>\<open>extract_isce_metadata\<close>\<close>

definition truthy :: "string option \<Rightarrow> bool" where
  \<comment> \<open>the truth value of an optional string argument: \<^verbatim>\<open>None\<close> and \<^verbatim>\<open>''\<close> are false\<close>
  "truthy a = (case a of None \<Rightarrow> False | Some s \<Rightarrow> s \<noteq> [])"

definition str_values :: "env \<Rightarrow> dict \<Rightarrow> dict" where
  \<comment> \<open>\<^verbatim>\<open>for key, value in metadata.items(): metadata[key] = str(value)\<close>\<close>
  "str_values e metadata = (\<lambda>k. map_option (\<lambda>v. VStr (py_str e v)) (metadata k))"

definition extract_and_write :: "env \<Rightarrow> state \<Rightarrow> string \<Rightarrow> string option \<Rightarrow> string \<Rightarrow> (error + dict) \<times> state" where
  \<comment> \<open>\<^verbatim>\<open>extract_isce_metadata\<close> from step 1 on\<close>
  "extract_and_write e st meta_file geom_dir rsc_file =
     (case
        bindE (get_processor e st (Some meta_file)) (\<lambda>processor.
        bindE (if processor = ''tops''
               then bindE (extract_tops_metadata e meta_file) (\<lambda>r. Inr (fst r))
               else bindE (extract_stripmap_metadata e meta_file) (\<lambda>r. Inr (fst r))) (\<lambda>metadata.
        bindE (case geom_dir of
                 Some g \<Rightarrow>
                   if g \<noteq> []
                   then (case extract_geometry_metadata e st g metadata of
                           (Some err, _) \<Rightarrow> Inl err
                         | (None, metadata) \<Rightarrow> Inr metadata)
                   else Inr metadata
               | None \<Rightarrow> Inr metadata) (\<lambda>metadata.
        let metadata = metadata(''PROCESSOR'' \<mapsto> VStr ''isce'');
            metadata = metadata(''ANTENNA_SIDE'' \<mapsto> VStr ''-1'');
            metadata = str_values e metadata;
            metadata = standardize_metadata e metadata
        in Inr metadata)))
      of
        Inl err \<Rightarrow> (Inl err, st)
      | Inr metadata \<Rightarrow>
          (Inr metadata,
           if rsc_file \<noteq> [] then write_roipac_rsc e metadata rsc_file False st else st))"

definition extract_isce_metadata ::
  "env \<Rightarrow> state \<Rightarrow> string \<Rightarrow> string option \<Rightarrow> string option \<Rightarrow> bool \<Rightarrow> (error + dict) \<times> state" where
  "extract_isce_metadata e st meta_file geom_dir rsc_file update_mode =
     (let rsc_file = (case rsc_file of
                        None \<Rightarrow> join (dirname meta_file) ''data.rsc''
                      | Some r \<Rightarrow> if r = [] then join (dirname meta_file) ''data.rsc'' else r)
      in if update_mode \<and> run_or_skip st rsc_file meta_file = ''skip''
         then (read_roipac_rsc st rsc_file, st)
         else extract_and_write e st meta_file geom_dir rsc_file)"

section \<open>Metadata of one interferogram, and the baselines\<close>

definition bval_sub :: "bval \<Rightarrow> bval \<Rightarrow> bval" where
  \<comment> \<open>\<^verbatim>\<open>a - b\<close> on numbers\<close>
  "bval_sub a b =
     (case (a, b) of
        (BInt i, BInt j) \<Rightarrow> BInt (i - j)
      | (BInt i, BFloat (Num y)) \<Rightarrow> BFloat (Num (of_int i - y))
      | (BFloat (Num x), BInt j) \<Rightarrow> BFloat (Num (x - of_int j))
      | (BFloat (Num x), BFloat (Num y)) \<Rightarrow> BFloat (Num (x - y))
      | _ \<Rightarrow> BFloat NaN)"

definition str_bval :: "env \<Rightarrow> bval \<Rightarrow> string" where
  "str_bval e v =
     (case v of BInt i \<Rightarrow> str_int i | BFloat (Num r) \<Rightarrow> str_float e r | BFloat NaN \<Rightarrow> ''nan'')"

definition bperp_diff :: "bdict \<Rightarrow> string list \<Rightarrow> int \<Rightarrow> error + bval" where
  \<comment> \<open>\<^verbatim>\<open>baseline_dict[dates[1]][i] - baseline_dict[dates[0]][i]\<close>\<close>
  "bperp_diff baseline_dict dates i =
     bindE (list_get dates 1) (\<lambda>d1.
     bindE (dict_get baseline_dict d1) (\<lambda>b1.
     bindE (list_get b1 i) (\<lambda>x1.
     bindE (list_get dates 0) (\<lambda>d0.
     bindE (dict_get baseline_dict d0) (\<lambda>b0.
     bindE (list_get b0 i) (\<lambda>x0.
     Inr (bval_sub x1 x0)))))))"

definition date12 :: "string list \<Rightarrow> error + string" where
  \<comment> \<open>\<^verbatim>\<open>'{}-{}'.format(dates[0][2:], dates[1][2:])\<close>\<close>
  "date12 dates =
     bindE (list_get dates 0) (\<lambda>d0.
     bindE (list_get dates 1) (\<lambda>d1.
     Inr (py_slice_from 2 d0 @ ''-'' @ py_slice_from 2 d1)))"

definition add_ifgram_metadata :: "env \<Rightarrow> dict \<Rightarrow> string list \<Rightarrow> bdict option \<Rightarrow> error + dict" where
  \<comment> \<open>\<^verbatim>\<open>baseline_dict\<close> is \<open>None\<close> for Python's \<^verbatim>\<open>None\<close>, which main passes when no baseline
      file was found; the metadata is a copy of the input\<close>
  "add_ifgram_metadata e metadata_in dates baseline_dict =
     (let metadata = metadata_in in
      bindE (date12 dates) (\<lambda>d12.
      let metadata = metadata(''DATE12'' \<mapsto> VStr d12) in
      case baseline_dict of
        None \<Rightarrow> Inr metadata
      | Some bd \<Rightarrow>
          if bd = Map.empty then Inr metadata
          else
            bindE (bperp_diff bd dates 0) (\<lambda>bperp_top.
            bindE (bperp_diff bd dates 1) (\<lambda>bperp_bottom.
            let metadata = metadata(''P_BASELINE_TOP_HDR'' \<mapsto> VStr (str_bval e bperp_top));
                metadata = metadata(''P_BASELINE_BOTTOM_HDR'' \<mapsto> VStr (str_bval e bperp_bottom))
            in Inr metadata))))"

definition np_mean :: "npfloat list \<Rightarrow> npfloat" where
  \<comment> \<open>\<^verbatim>\<open>np.mean\<close>: NaN for an empty list and when an entry is NaN\<close>
  "np_mean xs =
     (if xs = [] \<or> NaN \<in> set xs then NaN
      else Num (sum_list (map (\<lambda>x. case x of Num r \<Rightarrow> r | NaN \<Rightarrow> 0) xs) / of_nat (length xs)))"

fun bperp_lines :: "env \<Rightarrow> string list \<Rightarrow> error + npfloat list" where
  \<comment> \<open>the loop over the lines of a baseline file, collecting \<^verbatim>\<open>bperps\<close>\<close>
  "bperp_lines e [] = Inr []"
| "bperp_lines e (line # rest) =
     (let l = py_split line '':'' in
      case (if list_get l 0 = Inr ''Bperp (average)''
            then (case list_get l 1 of
                    Inl err \<Rightarrow> Inl err
                  | Inr t \<Rightarrow> (case float_of_str e t of None \<Rightarrow> Inl ValueError | Some x \<Rightarrow> Inr [x]))
            else Inr [])
      of Inl err \<Rightarrow> Inl err
       | Inr here \<Rightarrow> (case bperp_lines e rest of Inl err \<Rightarrow> Inl err | Inr others \<Rightarrow> Inr (here @ others)))"

definition read_tops_baseline :: "env \<Rightarrow> string \<Rightarrow> error + bval list" where
  "read_tops_baseline e baseline_file =
     bindE (read_lines e baseline_file) (\<lambda>lines.
     bindE (bperp_lines e lines) (\<lambda>bperps.
     let bperp_top = np_mean bperps;
         bperp_bottom = np_mean bperps
     in Inr [BFloat bperp_top, BFloat bperp_bottom]))"

definition py_float :: "env \<Rightarrow> string \<Rightarrow> error + npfloat" where
  "py_float e t = (case float_of_str e t of None \<Rightarrow> Inl ValueError | Some x \<Rightarrow> Inr x)"

definition read_stripmap_baseline :: "env \<Rightarrow> string \<Rightarrow> error + bval list" where
  "read_stripmap_baseline e baseline_file =
     bindE (read_template e baseline_file) (\<lambda>fDict.
     bindE (bindE (dict_get fDict ''PERP_BASELINE_TOP'') (py_float e)) (\<lambda>bperp_top.
     bindE (bindE (dict_get fDict ''PERP_BASELINE_BOTTOM'') (py_float e)) (\<lambda>bperp_bottom.
     Inr [BFloat bperp_top, BFloat bperp_bottom])))"

definition file_date1 :: "string \<Rightarrow> string" where
  \<comment> \<open>\<^verbatim>\<open>os.path.basename(i).split('_')[0]\<close>; a split has a first field\<close>
  "file_date1 i = hd (py_split (basename i) ''_'')"

definition file_dates :: "string \<Rightarrow> string list" where
  \<comment> \<open>\<^verbatim>\<open>os.path.basename(bFile).split('.txt')[0].split('_')\<close>\<close>
  "file_dates bFile = py_split (hd (py_split (basename bFile) ''.txt'')) ''_''"

fun baseline_loop :: "env \<Rightarrow> string \<Rightarrow> string list \<Rightarrow> bdict \<Rightarrow> string list option
    \<Rightarrow> error + bdict \<times> string list option" where
  \<comment> \<open>the loop that reads the files into \<^verbatim>\<open>bDict\<close>; the last argument is the variable
      \<^verbatim>\<open>dates\<close>, unbound before the first pass\<close>
  "baseline_loop e processor [] bDict dates = Inr (bDict, dates)"
| "baseline_loop e processor (bFile # rest) bDict dates =
     (let dates = file_dates bFile in
      case (if processor = ''tops'' then read_tops_baseline e bFile
            else read_stripmap_baseline e bFile) of
        Inl err \<Rightarrow> Inl err
      | Inr b \<Rightarrow>
          (case list_get dates 1 of
             Inl err \<Rightarrow> Inl err
           | Inr d1 \<Rightarrow> baseline_loop e processor rest (bDict(d1 \<mapsto> b)) (Some dates)))"

definition read_baseline_timeseries :: "env \<Rightarrow> string \<Rightarrow> string \<Rightarrow> error + bdict option" where
  \<comment> \<open>\<open>Inr None\<close> is the return of \<^verbatim>\<open>None\<close>\<close>
  "read_baseline_timeseries e baseline_dir processor =
     bindE (if processor = ''tops'' then Inr (sort (glob e (join baseline_dir ''*/*.txt'')))
            else if processor = ''stripmap'' then Inr (sort (glob e (join baseline_dir ''*.txt'')))
            else Inl ValueError) (\<lambda>bFiles.
     if length bFiles = 0 then Inr None
     else
       (let date1s = map file_date1 bFiles;
            date1 = most_common e date1s;
            bFiles = filter (\<lambda>i. file_date1 i = date1) bFiles
        in bindE (baseline_loop e processor bFiles Map.empty None) (\<lambda>(bDict, dates).
           case dates of
             None \<Rightarrow> Inl UnboundLocalError
           | Some dates \<Rightarrow>
               bindE (list_get dates 0) (\<lambda>d0.
               Inr (Some (bDict(d0 \<mapsto> [BInt 0, BInt 0])))))))"

section \<open>Writing the sidecar files\<close>

text \<open>
  These functions return nothing of interest for the files; the model returns the
  exception raised, if any, and the file store, which keeps the files written before it.
\<close>

fun geometry_write_loop :: "env \<Rightarrow> dict \<Rightarrow> bool \<Rightarrow> string list \<Rightarrow> state \<Rightarrow> error option \<times> state" where
  "geometry_write_loop e metadata update_mode [] st = (None, st)"
| "geometry_write_loop e metadata update_mode (isce_file # rest) st =
     (case read_attribute e (files st) isce_file (Some ''.xml'') of
        Inl err \<Rightarrow> (Some err, st)
      | Inr geom_metadata \<Rightarrow>
          (let geom_metadata = geom_metadata ++ metadata;
               rsc_file = isce_file @ ''.rsc''
           in geometry_write_loop e metadata update_mode rest
                (write_roipac_rsc e geom_metadata rsc_file update_mode st)))"

definition prepare_geometry :: "env \<Rightarrow> state \<Rightarrow> string \<Rightarrow> dict \<Rightarrow> bool \<Rightarrow> (error + dict) \<times> state" where
  "prepare_geometry e st geom_dir metadata update_mode =
     (let isce_files = map (\<lambda>i. join (abspath e geom_dir) (i @ ''.rdr''))
                         [''hgt'', ''lat'', ''lon'', ''los'', ''shadowMask'', ''incLocal''];
          isce_files = filter (isfile st) isce_files
      in case geometry_write_loop e metadata update_mode isce_files st of
           (Some err, st) \<Rightarrow> (Inl err, st)
         | (None, st) \<Rightarrow> (Inr metadata, st))"

definition ifg_metadata_of :: "env \<Rightarrow> state \<Rightarrow> dict \<Rightarrow> bdict option \<Rightarrow> string \<Rightarrow> error + dict" where
  \<comment> \<open>the metadata prepared for one interferogram file\<close>
  "ifg_metadata_of e st metadata baseline_dict isce_file =
     bindE (read_attribute e (files st) isce_file (Some ''.xml'')) (\<lambda>ifg_metadata.
     let ifg_metadata = ifg_metadata ++ metadata;
         dates = py_split (basename (dirname isce_file)) ''_''
     in add_ifgram_metadata e ifg_metadata dates baseline_dict)"

fun stack_loop :: "env \<Rightarrow> dict \<Rightarrow> bdict option \<Rightarrow> bool \<Rightarrow> string list \<Rightarrow> state \<Rightarrow> error option \<times> state" where
  "stack_loop e metadata baseline_dict update_mode [] st = (None, st)"
| "stack_loop e metadata baseline_dict update_mode (isce_file # rest) st =
     (case ifg_metadata_of e st metadata baseline_dict isce_file of
        Inl err \<Rightarrow> (Some err, st)
      | Inr ifg_metadata \<Rightarrow>
          (let rsc_file = isce_file @ ''.rsc''
           in stack_loop e metadata baseline_dict update_mode rest
                (write_roipac_rsc e ifg_metadata rsc_file update_mode st)))"

definition prepare_stack ::
  "env \<Rightarrow> state \<Rightarrow> string \<Rightarrow> string \<Rightarrow> dict \<Rightarrow> bdict option \<Rightarrow> bool \<Rightarrow> error option \<times> state" where
  "prepare_stack e st inputDir filePattern metadata baseline_dict update_mode =
     (let isce_files = sort (glob e (join (join (abspath e inputDir) ''*'') filePattern))
      in if length isce_files = 0 then (Some FileNotFoundError, st)
         else stack_loop e metadata baseline_dict update_mode isce_files st)"

section \<open>The command line\<close>

definition cmd_line_parse :: "env \<Rightarrow> string list \<Rightarrow> error + inps" where
  "cmd_line_parse e iargs =
     bindE (parse_args e iargs) (\<lambda>inps.
     if list_all (\<lambda>i. \<not> truthy i) [ifgramDir inps, geometryDir inps, metaFile inps]
     then Inl SystemExit
     else Inr inps)"

fun patterns_loop :: "env \<Rightarrow> string \<Rightarrow> dict \<Rightarrow> bdict option \<Rightarrow> bool \<Rightarrow> string list \<Rightarrow> state
    \<Rightarrow> error option \<times> state" where
  "patterns_loop e dir metadata baseline_dict um [] st = (None, st)"
| "patterns_loop e dir metadata baseline_dict um (namePattern # rest) st =
     (case prepare_stack e st dir namePattern metadata baseline_dict um of
        (Some err, st) \<Rightarrow> (Some err, st)
      | (None, st) \<Rightarrow> patterns_loop e dir metadata baseline_dict um rest st)"

definition main :: "env \<Rightarrow> state \<Rightarrow> string list \<Rightarrow> error option \<times> state" where
  "main e st iargs =
     tryE (cmd_line_parse e iargs) st (\<lambda>inps.
     tryE (get_processor e st (metaFile inps)) st (\<lambda>processor.
     (case (if truthy (metaFile inps)
            then extract_isce_metadata e st (the (metaFile inps)) (geometryDir inps) None
                   (inps_update_mode inps)
            else (Inr Map.empty, st)) of
        (Inl err, st) \<Rightarrow> (Some err, st)
      | (Inr metadata, st) \<Rightarrow>
          (case (if truthy (geometryDir inps)
                 then prepare_geometry e st (the (geometryDir inps)) metadata (inps_update_mode inps)
                 else (Inr metadata, st)) of
             (Inl err, st) \<Rightarrow> (Some err, st)
           | (Inr metadata, st) \<Rightarrow>
               tryE (if truthy (baselineDir inps)
                     then read_baseline_timeseries e (the (baselineDir inps)) processor
                     else Inr (Some Map.empty)) st (\<lambda>baseline_dict.
               if truthy (ifgramDir inps) \<and> ifgramFiles inps \<noteq> []
               then patterns_loop e (the (ifgramDir inps)) metadata baseline_dict
                      (inps_update_mode inps) (ifgramFiles inps) st
               else (None, st))))))"

section \<open>Sample inputs\<close>

text \<open>
  A small topsStack directory tree: a reference scene \<^verbatim>\<open>master/IW1.xml\<close> with one burst,
  a geometry directory with a height file multilooked by 2 and 3 and a line-of-sight file,
  one interferogram, one baseline file, and a stripmapApp scene.
\<close>

definition demo_time :: datetime where
  "demo_time = \<lparr>dt_hour = 1, dt_minute = 2, dt_second = 3, dt_epoch = 1000\<rparr>"

definition demo_orbit :: orbit where
  "demo_orbit = \<lparr>
     interpolateOrbit = (\<lambda>t. Inr \<lparr>getPosition = [1, 0, 0], getVelocity = [3, 4, 0]\<rparr>),
     getENUHeading = (\<lambda>t. 0)\<rparr>"

definition demo_burst :: burst where
  "demo_burst = \<lparr>
     burst_prf = VFloat 1000,
     burstStartUTC = demo_time,
     burstStopUTC = demo_time,
     burst_radarWavelength = VFloat (1 / 20),
     burst_startingRange = VFloat 800000,
     burst_passDirection = VStr ''ASCENDING'',
     burst_polarization = VStr ''vv'',
     burst_trackNumber = VInt 12,
     burst_orbitNumber = VInt 345,
     burst_orbit = demo_orbit,
     burst_sensingMid = demo_time,
     azimuthTimeInterval = 2,
     burst_rangePixelSize = VFloat 2,
     swathNumber = 1\<rparr>"

definition demo_product :: product where
  "demo_product = \<lparr>bursts = [demo_burst], ascendingNodeTime = demo_time\<rparr>"

definition demo_frame :: frame where
  "demo_frame = \<lparr>
     frame_PRF = 5,
     sensingStart = demo_time,
     sensingStop = demo_time,
     frame_sensingMid = demo_time,
     radarWavelegth = VFloat (1 / 20),
     frame_startingRange = VFloat 800000,
     frame_polarization = VStr ''HH'',
     frame_trackNumber = VInt 12,
     frame_orbitNumber = VInt 345,
     frame_orbit = demo_orbit,
     antennaLength = 10,
     pulseLength = 1,
     chirpSlope = 149896229,
     instrument_rangePixelSize = VFloat 2\<rparr>"

definition demo_inps :: inps where
  "demo_inps = \<lparr>
     ifgramDir = Some ''ifgs'',
     ifgramFiles = [''filt_*.unw''],
     metaFile = None,
     baselineDir = None,
     geometryDir = None,
     inps_update_mode = True\<rparr>"

definition demo_env :: env where
  "demo_env = \<lparr>
     glob = (\<lambda>p.
       if p = ''master/IW*.xml'' then [''master/IW1.xml'']
       else if p = ''geom/hgt*.rdr'' then [''geom/hgt.rdr'']
       else if p = ''ifgs/*/filt_*.unw'' then [''ifgs/20200101_20200113/filt_fine.unw'']
       else if p = ''work/*/filt_*.unw'' then [''work/stack/filt_fine.unw'']
       else if p = ''lost/*/filt_*.unw'' then [''lost/20200101_20200113/filt_fine.unw'']
       else if p = ''baselines/*/*.txt''
       then [''baselines/20200101_20200113/20200101_20200113.txt'']
       else []),
     abspath = (\<lambda>p. p),
     str_float = (\<lambda>r. if r = 10 then ''10.0'' else ''0.0''),
     str_datetime = (\<lambda>d. ''2020-01-01 01:02:03''),
     str_np = (\<lambda>r. if r = - 170 then ''-170.0'' else ''0.0''),
     int_of_str = (\<lambda>s.
       if s = ''2'' then Some 2 else if s = ''4'' then Some 4
       else if s = ''6'' then Some 6 else None),
     read_isce_xml = (\<lambda>p.
       if p = ''geom/hgt.rdr.full.xml''
       then Inr [''LENGTH'' \<mapsto> VStr ''4'', ''WIDTH'' \<mapsto> VStr ''6'']
       else Inl FileNotFoundError),
     read_attribute = (\<lambda>fs p ext.
       if p = ''geom/hgt.rdr'' \<or> p = ''ifgs/20200101_20200113/filt_fine.unw''
          \<or> p = ''work/stack/filt_fine.unw''
       then Inr [''LENGTH'' \<mapsto> VStr ''2'', ''WIDTH'' \<mapsto> VStr ''2'']
       else Inl FileNotFoundError),
     read_data = (\<lambda>p d.
       if p = ''geom/los.rdr'' \<and> d = Some ''az'' then Inr [[Num (- 100), Num 0]]
       else if p = ''dark/los.rdr'' \<and> d = Some ''az'' then Inr [[Num 0, Num 0]]
       else Inl FileNotFoundError),
     standardize_metadata = (\<lambda>m. m),
     read_lines = (\<lambda>p.
       if p = ''baselines/20200101_20200113/20200101_20200113.txt''
       then Inr [''Bpar (average): 3'', ''Bperp (average): 10'', ''Bperp (average): 20'']
       else Inl FileNotFoundError),
     float_of_str = (\<lambda>s.
       if s = '' 10'' then Some (Num 10) else if s = '' 20'' then Some (Num 20)
       else if s = '' 3'' then Some (Num 3) else None),
     read_template = (\<lambda>p. Inl FileNotFoundError),
     most_common = (\<lambda>l. case l of [] \<Rightarrow> [] | x # _ \<Rightarrow> x),
     parse_args = (\<lambda>a. if a = [''-i'', ''ifgs''] then Inr demo_inps else Inl SystemExit),
     loadProduct = (\<lambda>p.
       if p = ''master/IW1.xml'' then Inr (TopsProduct demo_product)
       else if p = ''scene/20120507_slc_crop.xml'' then Inr (StripmapFrame demo_frame)
       else if p = ''scene/zero_prf.xml'' then Inr (StripmapFrame (demo_frame\<lparr>frame_PRF := 0\<rparr>))
       else Inl FileNotFoundError),
     shelve_frame = (\<lambda>p. Inl FileNotFoundError),
     xyz_to_llh = (\<lambda>p. (0, 0, 700000)),
     pegRadCur = (\<lambda>lat lon hdg. 6371000)\<rparr>"

definition demo_state :: state where
  "demo_state = \<lparr>
     files = [''master/IW1.xml'' \<mapsto> \<lparr>mtime = 1, pairs = Map.empty\<rparr>,
              ''master/data.rsc'' \<mapsto> \<lparr>mtime = 2, pairs = [''PROCESSOR'' \<mapsto> ''isce'']\<rparr>,
              ''notes/readme.txt'' \<mapsto> \<lparr>mtime = 1, pairs = Map.empty\<rparr>,
              ''notes/data.rsc'' \<mapsto> \<lparr>mtime = 2, pairs = [''PROCESSOR'' \<mapsto> ''isce'']\<rparr>,
              ''geom/hgt.rdr.full.xml'' \<mapsto> \<lparr>mtime = 1, pairs = Map.empty\<rparr>,
              ''geom/los.rdr'' \<mapsto> \<lparr>mtime = 1, pairs = Map.empty\<rparr>,
              ''dark/los.rdr'' \<mapsto> \<lparr>mtime = 1, pairs = Map.empty\<rparr>],
     clock = 5,
     multilook_default = Map.empty,
     geometry_default = Map.empty\<rparr>"

definition demo_metadata :: dict where
  \<comment> \<open>the entries of a scene that the geometry step computes with\<close>
  "demo_metadata = [''rangeResolution'' \<mapsto> VFloat 4, ''rangePixelSize'' \<mapsto> VFloat 2,
                    ''azimuthResolution'' \<mapsto> VFloat 20, ''azimuthPixelSize'' \<mapsto> VFloat 10]"

section \<open>Notions used in the statements\<close>

definition num_at :: "dict \<Rightarrow> string \<Rightarrow> real option" where
  \<comment> \<open>the number stored under a key, if there is one\<close>
  "num_at d k = (case d k of None \<Rightarrow> None | Some v \<Rightarrow> py_num v)"

definition geometry_keys :: "string set" where
  \<comment> \<open>the keys the loop over the geometry files stores\<close>
  "geometry_keys = {''LAT_REF1'', ''LAT_REF2'', ''LAT_REF3'', ''LAT_REF4'',
                    ''LON_REF1'', ''LON_REF2'', ''LON_REF3'', ''LON_REF4'', ''HEADING''}"

definition nonzero_pixels :: "npfloat list list \<Rightarrow> real list" where
  \<comment> \<open>the pixels of a raster that are numbers other than zero, row by row\<close>
  "nonzero_pixels data =
     concat (map (\<lambda>row. concat (map (\<lambda>x. case x of Num r \<Rightarrow> if r = 0 then [] else [r] | NaN \<Rightarrow> []) row)) data)"

definition mean :: "real list \<Rightarrow> real" where
  "mean xs = sum_list xs / of_nat (length xs)"

definition rsc_path_of :: "string \<Rightarrow> string option \<Rightarrow> string" where
  \<comment> \<open>the sidecar file of \<^verbatim>\<open>extract_isce_metadata\<close>: the argument, or \<^verbatim>\<open>data.rsc\<close> beside the
      metadata file when the argument is \<^verbatim>\<open>None\<close> or empty\<close>
  "rsc_path_of meta_file rsc_file =
     (if truthy rsc_file then the rsc_file else join (dirname meta_file) ''data.rsc'')"

definition all_str :: "dict \<Rightarrow> bool" where
  "all_str d = (\<forall>k v. d k = Some v \<longrightarrow> (\<exists>s. v = VStr s))"








section \<open>Exceptions and arithmetic: basic facts\<close>

lemma bindE_Inr: "bindE r f = Inr y \<longleftrightarrow> (\<exists>x. r = Inr x \<and> f x = Inr y)"
  by (cases r) (simp_all add: bindE_def)

lemma tryE_cases:
  "tryE r s f = (x, s') \<longleftrightarrow> (\<exists>err. r = Inl err \<and> x = Some err \<and> s' = s) \<or> (\<exists>v. r = Inr v \<and> f v = (x, s'))"
  by (cases r) (auto simp add: tryE_def)

lemma seqE_None:
  "seqE r f = (None, s') \<longleftrightarrow> (\<exists>s. r = (None, s) \<and> f s = (None, s'))"
  by (cases r; cases "fst r") (auto simp add: seqE_def)

lemma tryE_None:
  "tryE r s f = (None, s') \<longleftrightarrow> (\<exists>v. r = Inr v \<and> f v = (None, s'))"
  by (cases r) (auto simp add: tryE_def)

lemma py_truediv_Inr:
  "py_truediv a b = Inr v \<longleftrightarrow> (\<exists>x y. py_num a = Some x \<and> py_num b = Some y \<and> y \<noteq> 0 \<and> v = VFloat (x / y))"
  by (auto simp add: py_truediv_def split: option.splits)

lemma py_mul_num:
  "py_mul a b = Inr v \<Longrightarrow> py_num v = Some z \<Longrightarrow> \<exists>x y. py_num a = Some x \<and> py_num b = Some y \<and> z = x * y"
  by (cases "(a, b)" rule: py_mul.cases) auto

lemma py_mul_nums:
  "py_num a = Some x \<Longrightarrow> py_num b = Some y \<Longrightarrow> \<exists>v. py_mul a b = Inr v \<and> py_num v = Some (x * y)"
  by (cases "(a, b)" rule: py_mul.cases) auto

lemma bindE_simps: "bindE (Inr x) f = f x" "bindE (Inl err) f = Inl err"
  by (simp_all add: bindE_def)

lemma seqE_simps: "seqE (None, s) f = f s" "seqE (Some err, s) f = (Some err, s)"
  by (simp_all add: seqE_def)

lemma list_get_0: "list_get xs 0 = Inr x \<longleftrightarrow> xs \<noteq> [] \<and> x = hd xs"
  by (cases xs) (auto simp add: list_get_def)

lemma dict_get_Inr: "dict_get d k = Inr v \<longleftrightarrow> d k = Some v"
  by (simp add: dict_get_def split: option.splits)

section \<open>Properties: detection of the processor\<close>

text \<open>
  Claim C2.  For every path, \<^verbatim>\<open>get_processor\<close> returns \<^verbatim>\<open>'tops'\<close> if the glob of
  \<^verbatim>\<open>IW*.xml\<close> in the directory of the path is not empty; otherwise \<^verbatim>\<open>'stripmap'\<close> if
  \<^verbatim>\<open>data.dat\<close> is a file of that directory or the path ends with \<^verbatim>\<open>.xml\<close>; otherwise it
  raises ValueError.  There is no other outcome.
\<close>

theorem get_processor_cases:
  "get_processor e st (Some meta_file) =
     (if glob e (join (dirname meta_file) ''IW*.xml'') \<noteq> [] then Inr ''tops''
      else if isfile st (join (dirname meta_file) ''data.dat'') \<or> endswith meta_file ''.xml''
      then Inr ''stripmap''
      else Inl ValueError)
   \<and> get_processor e st (Some meta_file) \<in> {Inr ''tops'', Inr ''stripmap'', Inl ValueError}"
  by (simp add: get_processor_def Let_def)

theorem get_processor_cases_witness:
  "get_processor demo_env demo_state (Some ''master/IW1.xml'') = Inr ''tops''
   \<and> get_processor demo_env demo_state (Some ''scene/20120507_slc_crop.xml'') = Inr ''stripmap''
   \<and> get_processor demo_env demo_state (Some ''notes/readme.txt'') = Inl ValueError"
proof -
  have a: "glob demo_env (join (dirname ''master/IW1.xml'') ''IW*.xml'') \<noteq> []"
    by code_simp
  have b: "glob demo_env (join (dirname ''scene/20120507_slc_crop.xml'') ''IW*.xml'') = []"
    "endswith ''scene/20120507_slc_crop.xml'' ''.xml''"
    by code_simp+
  have c: "glob demo_env (join (dirname ''notes/readme.txt'') ''IW*.xml'') = []"
    "\<not> isfile demo_state (join (dirname ''notes/readme.txt'') ''data.dat'')"
    "\<not> endswith ''notes/readme.txt'' ''.xml''"
    by code_simp+
  show ?thesis
    using get_processor_cases [of demo_env demo_state "''master/IW1.xml''"]
      get_processor_cases [of demo_env demo_state "''scene/20120507_slc_crop.xml''"]
      get_processor_cases [of demo_env demo_state "''notes/readme.txt''"]
    by (simp only: a b c if_True if_False simp_thms)
qed

section \<open>Properties: the command line\<close>

lemma get_processor_None: "get_processor e st None = Inl TypeError"
  by (simp add: get_processor_def)

text \<open>
  Claim C9.  \<^verbatim>\<open>cmd_line_parse\<close> accepts an invocation that gives \<^verbatim>\<open>-i\<close> or \<^verbatim>\<open>-g\<close>, but
  every run of \<^verbatim>\<open>main\<close> whose \<^verbatim>\<open>metaFile\<close> is \<^verbatim>\<open>None\<close> ends with an exception and
  leaves the file store as it was: \<^verbatim>\<open>get_processor\<close> is called on \<^verbatim>\<open>None\<close> first and
  raises TypeError.
\<close>

theorem main_without_meta_file:
  assumes "\<forall>inps. parse_args e iargs = Inr inps \<longrightarrow> metaFile inps = None"
  shows "(\<exists>err. main e st iargs = (Some err, st))
     \<and> (\<forall>inps. parse_args e iargs = Inr inps
            \<and> (truthy (ifgramDir inps) \<or> truthy (geometryDir inps))
          \<longrightarrow> cmd_line_parse e iargs = Inr inps \<and> main e st iargs = (Some TypeError, st))"
proof (cases "parse_args e iargs")
  case (Inl err)
  then show ?thesis
    by (simp add: main_def cmd_line_parse_def tryE_def bindE_def)
next
  case (Inr inps)
  with assms have m: "metaFile inps = None" by simp
  show ?thesis
  proof (cases "truthy (ifgramDir inps) \<or> truthy (geometryDir inps)")
    case True
    then have "cmd_line_parse e iargs = Inr inps"
      using Inr by (auto simp add: cmd_line_parse_def bindE_def)
    then show ?thesis
      using Inr m by (simp add: main_def tryE_def get_processor_None)
  next
    case False
    then have "cmd_line_parse e iargs = Inl SystemExit"
      using Inr m by (simp add: cmd_line_parse_def bindE_def truthy_def)
    then show ?thesis
      using Inr False by (simp add: main_def tryE_def)
  qed
qed

theorem main_without_meta_file_witness:
  "metaFile demo_inps = None
   \<and> parse_args demo_env [''-i'', ''ifgs''] = Inr demo_inps
   \<and> cmd_line_parse demo_env [''-i'', ''ifgs''] = Inr demo_inps
   \<and> main demo_env demo_state [''-i'', ''ifgs''] = (Some TypeError, demo_state)"
proof -
  have p: "parse_args demo_env [''-i'', ''ifgs''] = Inr demo_inps"
    by (simp add: demo_env_def)
  have h: "\<forall>inps. parse_args demo_env [''-i'', ''ifgs''] = Inr inps \<longrightarrow> metaFile inps = None"
    by (simp add: p) (simp add: demo_inps_def)
  have t: "truthy (ifgramDir demo_inps)"
    by (simp add: demo_inps_def truthy_def)
  show ?thesis
    using main_without_meta_file [OF h, of demo_state] p t by (simp add: demo_inps_def)
qed


section \<open>Properties: the scene metadata\<close>

lemma tops_azimuth:
  assumes "extract_tops_metadata e xml_file = Inr (md, b)"
  shows "\<exists>p peg. load_product e xml_file = Inr (TopsProduct p) \<and> bursts p \<noteq> [] \<and> b = hd (bursts p)
           \<and> interpolateOrbit (burst_orbit b) (burst_sensingMid b) = Inr peg
           \<and> md ''azimuthPixelSize'' = Some (VFloat (norm2 (getVelocity peg) * azimuthTimeInterval b))"
  using assms
  unfolding extract_tops_metadata_def obj_bursts_def obj_ascendingNodeTime_def
  apply (simp only: bindE_Inr Let_def)
  apply (elim exE conjE)
  apply (simp split: isce_obj.splits prod.splits add: list_get_0 bindE_Inr)
  apply (elim exE conjE disjE)
  apply (auto split: if_splits simp add: bindE_Inr)
  done

lemma norm2_nonneg: "0 \<le> norm2 v"
proof -
  have "0 \<le> sum_list (map (\<lambda>x. x * x) v)"
    by (rule sum_list_nonneg) auto
  then show ?thesis
    by (simp add: norm2_def)
qed

lemma stripmap_azimuth:
  assumes "extract_stripmap_metadata e meta_file = Inr (md, f)"
  shows "\<exists>peg. interpolateOrbit (frame_orbit f) (frame_sensingMid f) = Inr peg
           \<and> md ''azimuthPixelSize'' = Some (np_div (norm2 (getVelocity peg)) (frame_PRF f))"
  using assms
  unfolding extract_stripmap_metadata_def float_div_def
  apply (simp only: bindE_Inr Let_def)
  apply (elim exE conjE)
  apply (simp split: isce_obj.splits prod.splits if_splits add: bindE_Inr)
  apply auto
  done

text \<open>
  Claim C7.  The azimuth pixel size comes from the orbital velocity and the timing.  When
  \<^verbatim>\<open>extract_tops_metadata\<close> returns, its \<^verbatim>\<open>azimuthPixelSize\<close> is the Euclidean norm of
  the velocity of the orbit interpolated at \<^verbatim>\<open>sensingMid\<close> of the first burst, times that
  burst's \<^verbatim>\<open>azimuthTimeInterval\<close>.  When \<^verbatim>\<open>extract_stripmap_metadata\<close> returns, it is
  that norm divided by the frame's PRF; the norm is a numpy float, so at a PRF of zero the
  division does not raise: the quotient is \<^verbatim>\<open>inf\<close>, or \<^verbatim>\<open>nan\<close> when the norm is zero too.
\<close>

theorem azimuth_pixel_size:
  "(extract_tops_metadata e xml_file = Inr (md, b) \<longrightarrow>
      (\<exists>p peg. load_product e xml_file = Inr (TopsProduct p) \<and> bursts p \<noteq> [] \<and> b = hd (bursts p)
         \<and> interpolateOrbit (burst_orbit b) (burst_sensingMid b) = Inr peg
         \<and> md ''azimuthPixelSize''
             = Some (VFloat (norm2 (getVelocity peg) * azimuthTimeInterval b))))
   \<and> (extract_stripmap_metadata e meta_file = Inr (md', f) \<longrightarrow>
      (\<exists>peg. interpolateOrbit (frame_orbit f) (frame_sensingMid f) = Inr peg
         \<and> (frame_PRF f \<noteq> 0 \<longrightarrow>
              md' ''azimuthPixelSize'' = Some (VFloat (norm2 (getVelocity peg) / frame_PRF f)))
         \<and> (frame_PRF f = 0 \<and> norm2 (getVelocity peg) \<noteq> 0 \<longrightarrow>
              md' ''azimuthPixelSize'' = Some VPosInf)
         \<and> (frame_PRF f = 0 \<and> norm2 (getVelocity peg) = 0 \<longrightarrow>
              md' ''azimuthPixelSize'' = Some VNaN)))"
proof -
  have "\<exists>peg. interpolateOrbit (frame_orbit f) (frame_sensingMid f) = Inr peg
         \<and> (frame_PRF f \<noteq> 0 \<longrightarrow>
              md' ''azimuthPixelSize'' = Some (VFloat (norm2 (getVelocity peg) / frame_PRF f)))
         \<and> (frame_PRF f = 0 \<and> norm2 (getVelocity peg) \<noteq> 0 \<longrightarrow>
              md' ''azimuthPixelSize'' = Some VPosInf)
         \<and> (frame_PRF f = 0 \<and> norm2 (getVelocity peg) = 0 \<longrightarrow>
              md' ''azimuthPixelSize'' = Some VNaN)"
    if "extract_stripmap_metadata e meta_file = Inr (md', f)"
  proof -
    from stripmap_azimuth [OF that] obtain peg where
      peg: "interpolateOrbit (frame_orbit f) (frame_sensingMid f) = Inr peg"
      and az: "md' ''azimuthPixelSize'' = Some (np_div (norm2 (getVelocity peg)) (frame_PRF f))"
      by blast
    have "0 \<le> norm2 (getVelocity peg)"
      by (rule norm2_nonneg)
    then show ?thesis
      using peg az by (auto simp add: np_div_def)
  qed
  with tops_azimuth [of e xml_file md b] show ?thesis
    by blast
qed

lemma norm2_345: "norm2 [3, 4, 0] = 5"
  by (simp add: norm2_def real_sqrt_unique)

theorem azimuth_pixel_size_witness:
  "(\<exists>md b. extract_tops_metadata demo_env ''master/IW1.xml'' = Inr (md, b)
      \<and> md ''azimuthPixelSize'' = Some (VFloat 10))
   \<and> (\<exists>md f. extract_stripmap_metadata demo_env ''scene/20120507_slc_crop.xml'' = Inr (md, f)
      \<and> md ''azimuthPixelSize'' = Some (VFloat 1))
   \<and> (\<exists>md f. extract_stripmap_metadata demo_env ''scene/zero_prf.xml'' = Inr (md, f)
      \<and> frame_PRF f = 0 \<and> md ''azimuthPixelSize'' = Some VPosInf)"
proof -
  have names: "basename ''master/IW1.xml'' = ''IW1.xml''" "splitext_root ''IW1.xml'' = ''IW1''"
    "join (dirname ''master/IW1.xml'') ''IW*.xml'' = ''master/IW*.xml''"
    "startswith ''IW1.xml'' ''IW''"
    "basename ''scene/20120507_slc_crop.xml'' \<noteq> ''data.dat''"
    "endswith ''scene/20120507_slc_crop.xml'' ''.xml''"
    "basename ''scene/zero_prf.xml'' \<noteq> ''data.dat''"
    "endswith ''scene/zero_prf.xml'' ''.xml''"
    by code_simp+
  have res: "dict_get TOPS_RESOLUTION ''IW1'' \<noteq> Inl KeyError"
    "bindE (dict_get TOPS_RESOLUTION ''IW1'') (\<lambda>t. dict_get t ''azimuthResolution'') = Inr (22.5)"
    "bindE (dict_get TOPS_RESOLUTION ''IW1'') (\<lambda>t. dict_get t ''rangeResolution'') = Inr (2.7)"
    by (simp_all add: TOPS_RESOLUTION_def dict_get_def bindE_def)
  define zero_frame where "zero_frame = demo_frame\<lparr>frame_PRF := 0\<rparr>"
  have lp: "load_product demo_env ''master/IW1.xml'' = Inr (TopsProduct demo_product)"
    "load_product demo_env ''scene/20120507_slc_crop.xml'' = Inr (StripmapFrame demo_frame)"
    "load_product demo_env ''scene/zero_prf.xml'' = Inr (StripmapFrame zero_frame)"
    "glob demo_env ''master/IW*.xml'' = [''master/IW1.xml'']"
    by (simp_all add: load_product_def demo_env_def zero_frame_def)
  have bs: "list_get (bursts demo_product) 0 = Inr demo_burst"
    "list_get (bursts demo_product) (- 1) = Inr demo_burst"
    by (simp_all add: demo_product_def list_get_def)
  have orb: "interpolateOrbit (burst_orbit demo_burst) (burst_sensingMid demo_burst)
      = Inr \<lparr>getPosition = [1, 0, 0], getVelocity = [3, 4, 0]\<rparr>"
    "interpolateOrbit (frame_orbit demo_frame) (frame_sensingMid demo_frame)
      = Inr \<lparr>getPosition = [1, 0, 0], getVelocity = [3, 4, 0]\<rparr>"
    "interpolateOrbit (frame_orbit zero_frame) (frame_sensingMid zero_frame)
      = Inr \<lparr>getPosition = [1, 0, 0], getVelocity = [3, 4, 0]\<rparr>"
    by (simp_all add: demo_burst_def demo_frame_def demo_orbit_def zero_frame_def)
  have "\<exists>md. extract_tops_metadata demo_env ''master/IW1.xml'' = Inr (md, demo_burst)"
    unfolding extract_tops_metadata_def
    by (simp add: lp bs orb names res obj_bursts_def obj_ascendingNodeTime_def bindE_simps Let_def
        split: prod.splits)
  then obtain md where t: "extract_tops_metadata demo_env ''master/IW1.xml'' = Inr (md, demo_burst)"
    by blast
  have fr: "frame_PRF demo_frame = 5" "pulseLength demo_frame \<noteq> 0" "chirpSlope demo_frame \<noteq> 0"
    "frame_PRF zero_frame = 0" "pulseLength zero_frame \<noteq> 0" "chirpSlope zero_frame \<noteq> 0"
    by (simp_all add: demo_frame_def zero_frame_def)
  have "\<exists>md. extract_stripmap_metadata demo_env ''scene/20120507_slc_crop.xml'' = Inr (md, demo_frame)"
    unfolding extract_stripmap_metadata_def
    by (simp add: lp orb names fr float_div_def bindE_simps Let_def SPEED_OF_LIGHT_def
        split: prod.splits)
  then obtain md' where s: "extract_stripmap_metadata demo_env ''scene/20120507_slc_crop.xml'' = Inr (md', demo_frame)"
    by blast
  have "\<exists>md. extract_stripmap_metadata demo_env ''scene/zero_prf.xml'' = Inr (md, zero_frame)"
    unfolding extract_stripmap_metadata_def
    by (simp add: lp orb names fr float_div_def bindE_simps Let_def SPEED_OF_LIGHT_def
        split: prod.splits)
  then obtain md0 where z: "extract_stripmap_metadata demo_env ''scene/zero_prf.xml'' = Inr (md0, zero_frame)"
    by blast
  note inst = azimuth_pixel_size [of demo_env "''master/IW1.xml''" md demo_burst
      "''scene/20120507_slc_crop.xml''" md' demo_frame]
  note inst0 = azimuth_pixel_size [of demo_env "''master/IW1.xml''" md demo_burst
      "''scene/zero_prf.xml''" md0 zero_frame]
  from inst t orb have "md ''azimuthPixelSize'' = Some (VFloat 10)"
    by (auto simp add: demo_burst_def norm2_345)
  moreover from inst s orb fr have "md' ''azimuthPixelSize'' = Some (VFloat 1)"
    by (auto simp add: norm2_345)
  moreover from inst0 z orb fr have "md0 ''azimuthPixelSize'' = Some VPosInf"
    by (auto simp add: norm2_345)
  ultimately show ?thesis
    using t s z fr(4) by blast
qed

section \<open>Properties: the geometry metadata\<close>

lemma multilook_loop_add:
  "multilook_loop e st g l md =
     (fst (multilook_loop e st g l Map.empty), md ++ snd (multilook_loop e st g l Map.empty))"
proof (induction l)
  case Nil
  show ?case by simp
next
  case (Cons fb rest)
  show ?case
    using Cons.IH
    by (simp add: Let_def tryE_def split: list.splits sum.splits)
qed

lemma multilook_loop_dom:
  "dom (snd (multilook_loop e st g l Map.empty)) \<subseteq> {''ALOOKS'', ''RLOOKS''}"
proof (induction l)
  case Nil
  show ?case by simp
next
  case (Cons fb rest)
  show ?case
    using Cons.IH
    by (auto simp add: Let_def tryE_def split: list.splits sum.splits if_splits)
qed

lemma multilook_loop_other:
  assumes "multilook_loop e st g l md = (r, md1)" "k \<noteq> ''ALOOKS''" "k \<noteq> ''RLOOKS''"
  shows "md1 k = md k"
proof -
  have "k \<notin> dom (snd (multilook_loop e st g l Map.empty))"
    using multilook_loop_dom [of e st g l] assms(2,3) by blast
  moreover have "md1 = md ++ snd (multilook_loop e st g l Map.empty)"
    using assms(1) multilook_loop_add [of e st g l md] by simp
  ultimately show ?thesis
    by (simp add: map_add_dom_app_simps)
qed

lemma ratio_Inr:
  "ratio d a b = Inr v \<longleftrightarrow>
     (\<exists>x y. num_at d a = Some x \<and> num_at d b = Some y \<and> y \<noteq> 0 \<and> v = VFloat (x / y))"
  by (auto simp add: ratio_def bindE_Inr dict_get_Inr py_truediv_Inr num_at_def split: option.splits)

lemma ncorrlooks_Inr:
  assumes "ncorrlooks d (VFloat rg) (VFloat az) = Inr v"
  shows "\<exists>rl al. num_at d ''RLOOKS'' = Some rl \<and> num_at d ''ALOOKS'' = Some al
           \<and> rg * az \<noteq> 0 \<and> v = VFloat (rl * al / (rg * az))"
proof -
  from assms obtain x y n where x: "d ''RLOOKS'' = Some x" and y: "d ''ALOOKS'' = Some y"
    and n: "py_mul x y = Inr n" and v: "py_truediv n (VFloat (rg * az)) = Inr v"
    by (auto simp add: ncorrlooks_def bindE_Inr dict_get_Inr)
  from v obtain z where z: "py_num n = Some z" and nz: "rg * az \<noteq> 0" and v': "v = VFloat (z / (rg * az))"
    by (auto simp add: py_truediv_Inr)
  from py_mul_num [OF n z] obtain rl al where "py_num x = Some rl" "py_num y = Some al" "z = rl * al"
    by blast
  then show ?thesis
    using x y nz v' by (simp add: num_at_def)
qed

lemma set_default_other: "k \<noteq> key \<Longrightarrow> set_default key d k = d k"
  by (simp add: set_default_def)

lemma multilook_result:
  assumes "extract_multilook_number e st g md = (None, md2)"
  shows "\<exists>rr rp ar ap rl al.
      num_at md ''rangeResolution'' = Some rr \<and> num_at md ''rangePixelSize'' = Some rp \<and>
      num_at md ''azimuthResolution'' = Some ar \<and> num_at md ''azimuthPixelSize'' = Some ap \<and>
      num_at md2 ''RLOOKS'' = Some rl \<and> num_at md2 ''ALOOKS'' = Some al \<and>
      md2 ''NCORRLOOKS'' = Some (VFloat (rl * al / ((rr / rp) * (ar / ap)))) \<and>
      md2 ''rangePixelSize'' = md ''rangePixelSize'' \<and>
      md2 ''azimuthPixelSize'' = md ''azimuthPixelSize''"
proof -
  from assms obtain md1 where loop: "multilook_loop e st g [''hgt'', ''lat'', ''lon'', ''los''] md = (None, md1)"
    and rest: "(let metadata = set_default ''ALOOKS'' md1; metadata = set_default ''RLOOKS'' metadata
       in tryE (ratio metadata ''rangeResolution'' ''rangePixelSize'') metadata (\<lambda>rgfact.
          tryE (ratio metadata ''azimuthResolution'' ''azimuthPixelSize'') metadata (\<lambda>azfact.
          tryE (ncorrlooks metadata rgfact azfact) metadata (\<lambda>n.
          (None, metadata(''NCORRLOOKS'' \<mapsto> n)))))) = (None, md2)"
    unfolding extract_multilook_number_def seqE_None by blast
  define d where "d = set_default ''RLOOKS'' (set_default ''ALOOKS'' md1)"
  have same: "d k = md k" if "k \<noteq> ''ALOOKS''" "k \<noteq> ''RLOOKS''" for k
    using multilook_loop_other [OF loop that] that by (simp add: d_def set_default_other)
  from rest obtain rgfact azfact n where rg: "ratio d ''rangeResolution'' ''rangePixelSize'' = Inr rgfact"
    and az: "ratio d ''azimuthResolution'' ''azimuthPixelSize'' = Inr azfact"
    and n: "ncorrlooks d rgfact azfact = Inr n" and md2: "md2 = d(''NCORRLOOKS'' \<mapsto> n)"
    by (auto simp add: Let_def tryE_None d_def)
  from rg obtain rr rp where rr: "num_at d ''rangeResolution'' = Some rr" "num_at d ''rangePixelSize'' = Some rp"
    "rgfact = VFloat (rr / rp)"
    by (auto simp add: ratio_Inr)
  from az obtain ar ap where ar: "num_at d ''azimuthResolution'' = Some ar" "num_at d ''azimuthPixelSize'' = Some ap"
    "azfact = VFloat (ar / ap)"
    by (auto simp add: ratio_Inr)
  from n rr(3) ar(3) obtain rl al where l: "num_at d ''RLOOKS'' = Some rl" "num_at d ''ALOOKS'' = Some al"
    "n = VFloat (rl * al / ((rr / rp) * (ar / ap)))"
    using ncorrlooks_Inr by blast
  have "num_at md ''rangeResolution'' = Some rr" "num_at md ''rangePixelSize'' = Some rp"
    "num_at md ''azimuthResolution'' = Some ar" "num_at md ''azimuthPixelSize'' = Some ap"
    using rr ar same by (simp_all add: num_at_def)
  moreover have "num_at md2 ''RLOOKS'' = Some rl" "num_at md2 ''ALOOKS'' = Some al"
    using l md2 by (simp_all add: num_at_def)
  moreover have "md2 ''NCORRLOOKS'' = Some (VFloat (rl * al / ((rr / rp) * (ar / ap))))"
    using l md2 by simp
  moreover have "md2 ''rangePixelSize'' = md ''rangePixelSize''" "md2 ''azimuthPixelSize'' = md ''azimuthPixelSize''"
    using md2 same by simp_all
  ultimately show ?thesis by blast
qed

lemma corner_refs_other:
  assumes "corner_refs e f key md = (r, md')"
    and "k \<noteq> key @ ''1''" "k \<noteq> key @ ''2''" "k \<noteq> key @ ''3''" "k \<noteq> key @ ''4''"
  shows "md' k = md k"
  using assms
  by (auto simp add: corner_refs_def tryE_def Let_def split: sum.splits prod.splits)

lemma geometry_file_other:
  assumes "geometry_file e f md = (r, md')" "k \<notin> geometry_keys"
  shows "md' k = md k"
proof -
  obtain r1 m1 where 1: "(if contains ''lat'' (basename f)
           then corner_refs e f ''LAT_REF'' md else (None, md)) = (r1, m1)"
    by (cases "(if contains ''lat'' (basename f) then corner_refs e f ''LAT_REF'' md else (None, md))") blast
  have k1: "m1 k = md k"
    using 1 assms(2) corner_refs_other [of e f "''LAT_REF''" md r1 m1 k]
    by (auto simp add: geometry_keys_def split: if_splits)
  obtain r2 m2 where 2: "(if contains ''lon'' (basename f)
           then corner_refs e f ''LON_REF'' m1 else (None, m1)) = (r2, m2)"
    by (cases "(if contains ''lon'' (basename f) then corner_refs e f ''LON_REF'' m1 else (None, m1))") blast
  have k2: "m2 k = m1 k"
    using 2 assms(2) corner_refs_other [of e f "''LON_REF''" m1 r2 m2 k]
    by (auto simp add: geometry_keys_def split: if_splits)
  have "md' k = m2 k \<or> md' k = m1 k \<or> md' k = md k"
    using assms 1 2 unfolding geometry_file_def
    by (auto simp add: seqE_def tryE_def geometry_keys_def split: option.splits if_splits sum.splits)
  then show ?thesis using k1 k2 by auto
qed

lemma geometry_loop_other:
  "geometry_loop e fs md = (r, md') \<Longrightarrow> k \<notin> geometry_keys \<Longrightarrow> md' k = md k"
proof (induction fs arbitrary: md)
  case Nil
  then show ?case by simp
next
  case (Cons f fs)
  obtain r1 m1 where 1: "geometry_file e f md = (r1, m1)"
    by (cases "geometry_file e f md") blast
  have k1: "m1 k = md k"
    using geometry_file_other [OF 1 Cons.prems(2)] .
  show ?case
  proof (cases r1)
    case None
    then have "geometry_loop e fs m1 = (r, md')"
      using Cons.prems(1) 1 by simp
    from Cons.IH [OF this Cons.prems(2)] k1 show ?thesis by simp
  next
    case (Some err)
    then have "md' = m1"
      using Cons.prems(1) 1 by simp
    then show ?thesis using k1 by simp
  qed
qed

lemma scale_by_None:
  assumes "scale_by key by md = (None, md')"
  shows "\<exists>x y v. md key = Some x \<and> md by = Some y \<and> py_mul x y = Inr v \<and> md' = md(key \<mapsto> v)"
  using assms
  by (auto simp add: scale_by_def tryE_None bindE_Inr dict_get_Inr)

lemma scale_by_num:
  assumes "scale_by key by md = (None, md')" "num_at md key = Some x" "num_at md by = Some y"
  shows "num_at md' key = Some (x * y) \<and> (\<forall>k. k \<noteq> key \<longrightarrow> md' k = md k)"
proof -
  from scale_by_None [OF assms(1)] obtain a b v where
    ab: "md key = Some a" "md by = Some b" "py_mul a b = Inr v" "md' = md(key \<mapsto> v)"
    by blast
  have "py_num a = Some x" "py_num b = Some y"
    using ab(1,2) assms(2,3) by (simp_all add: num_at_def)
  from py_mul_nums [OF this] ab(3) have "py_num v = Some (x * y)"
    by auto
  then show ?thesis
    using ab(4) by (simp add: num_at_def)
qed

text \<open>
  Claim C4.  When \<^verbatim>\<open>extract_geometry_metadata\<close> returns, \<^verbatim>\<open>NCORRLOOKS\<close> is
  \<^verbatim>\<open>RLOOKS * ALOOKS / ((rangeResolution / rangePixelSize) * (azimuthResolution / azimuthPixelSize))\<close>
  with the pixel sizes of the dict as it came in (single look): the pixel sizes of the
  result are those times \<^verbatim>\<open>RLOOKS\<close> and \<^verbatim>\<open>ALOOKS\<close>.
\<close>

theorem ncorrlooks_single_look:
  assumes "extract_geometry_metadata e st geom_dir md = (None, md')"
  shows "\<exists>rr rp ar ap rl al.
      num_at md ''rangeResolution'' = Some rr \<and> num_at md ''rangePixelSize'' = Some rp \<and>
      num_at md ''azimuthResolution'' = Some ar \<and> num_at md ''azimuthPixelSize'' = Some ap \<and>
      num_at md' ''RLOOKS'' = Some rl \<and> num_at md' ''ALOOKS'' = Some al \<and>
      md' ''NCORRLOOKS'' = Some (VFloat (rl * al / ((rr / rp) * (ar / ap)))) \<and>
      num_at md' ''rangePixelSize'' = Some (rp * rl) \<and>
      num_at md' ''azimuthPixelSize'' = Some (ap * al)"
proof -
  from assms obtain m2 m3 m4 fs where
    ml: "extract_multilook_number e st geom_dir md = (None, m2)"
    and s1: "scale_by ''rangePixelSize'' ''RLOOKS'' m2 = (None, m3)"
    and s2: "scale_by ''azimuthPixelSize'' ''ALOOKS'' m3 = (None, m4)"
    and gl: "geometry_loop e fs m4 = (None, md')"
    unfolding extract_geometry_metadata_def Let_def seqE_None by blast
  from multilook_result [OF ml] obtain rr rp ar ap rl al where
    in_md: "num_at md ''rangeResolution'' = Some rr" "num_at md ''rangePixelSize'' = Some rp"
      "num_at md ''azimuthResolution'' = Some ar" "num_at md ''azimuthPixelSize'' = Some ap"
    and m2: "num_at m2 ''RLOOKS'' = Some rl" "num_at m2 ''ALOOKS'' = Some al"
      "m2 ''NCORRLOOKS'' = Some (VFloat (rl * al / ((rr / rp) * (ar / ap))))"
      "m2 ''rangePixelSize'' = md ''rangePixelSize''" "m2 ''azimuthPixelSize'' = md ''azimuthPixelSize''"
    by blast
  have p2: "num_at m2 ''rangePixelSize'' = Some rp" "num_at m2 ''azimuthPixelSize'' = Some ap"
    using in_md m2 by (simp_all add: num_at_def)
  from scale_by_num [OF s1 p2(1) m2(1)] have m3:
    "num_at m3 ''rangePixelSize'' = Some (rp * rl)" "\<forall>k. k \<noteq> ''rangePixelSize'' \<longrightarrow> m3 k = m2 k"
    by blast+
  have p3: "num_at m3 ''azimuthPixelSize'' = Some ap" "num_at m3 ''ALOOKS'' = Some al"
    using m3(2) p2(2) m2(2) by (simp_all add: num_at_def)
  from scale_by_num [OF s2 p3] have m4:
    "num_at m4 ''azimuthPixelSize'' = Some (ap * al)" "\<forall>k. k \<noteq> ''azimuthPixelSize'' \<longrightarrow> m4 k = m3 k"
    by blast+
  have keep: "md' k = m4 k" if "k \<notin> geometry_keys" for k
    using geometry_loop_other [OF gl that] .
  have "num_at md' ''RLOOKS'' = Some rl" "num_at md' ''ALOOKS'' = Some al"
    "md' ''NCORRLOOKS'' = Some (VFloat (rl * al / ((rr / rp) * (ar / ap))))"
    "num_at md' ''rangePixelSize'' = Some (rp * rl)"
    "num_at md' ''azimuthPixelSize'' = Some (ap * al)"
    using m2 m3 m4 keep by (simp_all add: num_at_def geometry_keys_def)
  then show ?thesis
    using in_md by blast
qed


theorem ncorrlooks_single_look_witness:
  "\<exists>md'. extract_geometry_metadata demo_env demo_state ''geom'' demo_metadata = (None, md')
      \<and> md' ''NCORRLOOKS'' = Some (VFloat (3 / 2))
      \<and> num_at md' ''rangePixelSize'' = Some 6
      \<and> num_at md' ''azimuthPixelSize'' = Some 20"
proof -
  have "fst (extract_geometry_metadata demo_env demo_state ''geom'' demo_metadata) = None"
    by code_simp
  then obtain md' where g: "extract_geometry_metadata demo_env demo_state ''geom'' demo_metadata = (None, md')"
    by (cases "extract_geometry_metadata demo_env demo_state ''geom'' demo_metadata") auto
  have l: "num_at (snd (extract_geometry_metadata demo_env demo_state ''geom'' demo_metadata)) ''RLOOKS'' = Some 3"
    "num_at (snd (extract_geometry_metadata demo_env demo_state ''geom'' demo_metadata)) ''ALOOKS'' = Some 2"
    by code_simp+
  have i: "num_at demo_metadata ''rangeResolution'' = Some 4"
    "num_at demo_metadata ''rangePixelSize'' = Some 2"
    "num_at demo_metadata ''azimuthResolution'' = Some 20"
    "num_at demo_metadata ''azimuthPixelSize'' = Some 10"
    by (simp_all add: num_at_def demo_metadata_def)
  from ncorrlooks_single_look [OF g] l i g
  have "md' ''NCORRLOOKS'' = Some (VFloat (3 / 2)) \<and> num_at md' ''rangePixelSize'' = Some 6
      \<and> num_at md' ''azimuthPixelSize'' = Some 20"
    by auto
  then show ?thesis using g by blast
qed


lemma np_round_close: "\<bar>x - np_round x\<bar> \<le> 1 / 2"
proof -
  have "of_int \<lfloor>x\<rfloor> \<le> x" "x < of_int \<lfloor>x\<rfloor> + 1"
    by linarith+
  then show ?thesis
    unfolding np_round_def Let_def by (auto split: if_splits)
qed

lemma reduced_range:
  fixes h :: real
  shows "- 180 \<le> h - np_round (h / 360) * 360 \<and> h - np_round (h / 360) * 360 \<le> 180"
proof -
  have "\<bar>h / 360 - np_round (h / 360)\<bar> \<le> 1 / 2"
    by (rule np_round_close)
  then show ?thesis
    by (simp add: abs_le_iff field_simps)
qed

lemma nanmean_masked:
  "nanmean (map (map (\<lambda>x. if x = Num 0 then NaN else x)) data) =
     (if nonzero_pixels data = [] then NaN else Num (mean (nonzero_pixels data)))"
proof -
  have pix: "(case (if x = Num 0 then NaN else x) of Num r \<Rightarrow> [r] | NaN \<Rightarrow> [])
      = (case x of Num r \<Rightarrow> if r = 0 then [] else [r] | NaN \<Rightarrow> [])" for x
    by (cases x) auto
  have "concat (map (\<lambda>row. concat (map (\<lambda>x. case x of Num r \<Rightarrow> [r] | NaN \<Rightarrow> []) row))
          (map (map (\<lambda>x. if x = Num 0 then NaN else x)) data)) = nonzero_pixels data"
    by (simp add: nonzero_pixels_def comp_def pix)
  then show ?thesis
    by (simp add: nanmean_def mean_def Let_def)
qed

lemma heading_value:
  "heading data =
     (if nonzero_pixels data = [] then NaN
      else Num (- (270 + mean (nonzero_pixels data))
                - np_round (- (270 + mean (nonzero_pixels data)) / 360) * 360))"
  unfolding heading_def Let_def nanmean_masked by simp

lemma basename_join:
  assumes "sep \<notin> set name"
  shows "basename (join a name) = name"
proof -
  have tw: "takeWhile (\<lambda>c. c \<noteq> sep) (rev name @ r) = rev name @ takeWhile (\<lambda>c. c \<noteq> sep) r" for r
    using assms by (intro takeWhile_append2) auto
  have nb: "\<not> startswith name [sep]"
    using assms by (cases name) (auto simp add: startswith_def)
  show ?thesis
  proof (cases "a = [] \<or> endswith a [sep]")
    case True
    then have "takeWhile (\<lambda>c. c \<noteq> sep) (rev a) = []"
    proof
      assume "a = []" then show ?thesis by simp
    next
      assume "endswith a [sep]"
      then have "drop (length a - 1) a = [sep]"
        by (simp add: endswith_def)
      then have "a = take (length a - 1) a @ [sep]"
        using append_take_drop_id [of "length a - 1" a] by simp
      then obtain b where "a = b @ [sep]" ..
      then show ?thesis
        by simp
    qed
    then show ?thesis
      using True nb by (simp add: join_def basename_def tw)
  next
    case False
    then show ?thesis
      using nb by (simp add: join_def basename_def tw)
  qed
qed

lemma geometry_loop_snoc:
  "geometry_loop e (fs @ [f]) md = (None, md') \<longleftrightarrow>
     (\<exists>m. geometry_loop e fs md = (None, m) \<and> geometry_file e f m = (None, md'))"
proof (induction fs arbitrary: md)
  case Nil
  show ?case by (auto split: prod.splits option.splits)
next
  case (Cons g gs)
  show ?case
    using Cons.IH by (auto split: prod.splits option.splits)
qed

lemma los_name:
  "\<not> contains ''lat'' ''los.rdr''" "\<not> contains ''lon'' ''los.rdr''" "contains ''los'' ''los.rdr''"
  "sep \<notin> set ''los.rdr''"
  by code_simp+

lemma geometry_file_los:
  assumes "geometry_file e (join a ''los.rdr'') m = (None, md')"
  shows "\<exists>data. read_data e (join a ''los.rdr'') (Some ''az'') = Inr data
           \<and> md' = m(''HEADING'' \<mapsto> VStr (str_pixel e (heading data)))"
proof -
  have "geometry_file e (join a ''los.rdr'') m =
      tryE (read_data e (join a ''los.rdr'') (Some ''az'')) m (\<lambda>data.
        (None, m(''HEADING'' \<mapsto> VStr (str_pixel e (heading data)))))"
    by (simp only: geometry_file_def basename_join [OF los_name(4)] los_name if_False if_True
        seqE_simps)
  with assms show ?thesis
    by (auto simp add: tryE_None)
qed

text \<open>
  Claim C6, amended.  When \<^verbatim>\<open>extract_geometry_metadata\<close> returns and \<^verbatim>\<open>los.rdr\<close> is a
  file of the geometry directory, \<^verbatim>\<open>HEADING\<close> is the string of the heading computed from
  the \<^verbatim>\<open>az\<close> dataset.  If the dataset has a pixel that is a number other than zero, the
  heading is \<open>h - round (h / 360) * 360\<close> for \<open>h = - (270 + a)\<close>, \<open>a\<close> the mean of those
  pixels, and lies between \<open>-180\<close> and \<open>180\<close>.  If it has none, the heading is NaN.
\<close>

theorem heading_in_range:
  assumes "extract_geometry_metadata e st geom_dir md = (None, md')"
    and "isfile st (join (abspath e geom_dir) ''los.rdr'')"
  shows "\<exists>data. read_data e (join (abspath e geom_dir) ''los.rdr'') (Some ''az'') = Inr data
      \<and> md' ''HEADING'' = Some (VStr (str_pixel e (heading data)))
      \<and> (nonzero_pixels data = [] \<longrightarrow> heading data = NaN)
      \<and> (nonzero_pixels data \<noteq> [] \<longrightarrow>
           (\<exists>h. heading data = Num h
              \<and> h = - (270 + mean (nonzero_pixels data))
                     - np_round (- (270 + mean (nonzero_pixels data)) / 360) * 360
              \<and> - 180 \<le> h \<and> h \<le> 180))"
proof -
  define los where "los = join (abspath e geom_dir) ''los.rdr''"
  define others where "others = filter (isfile st)
      (map (\<lambda>i. join (abspath e geom_dir) (i @ ''.rdr'')) [''hgt'', ''lat'', ''lon''])"
  have fs: "filter (isfile st)
      (map (\<lambda>i. join (abspath e geom_dir) (i @ ''.rdr'')) [''hgt'', ''lat'', ''lon'', ''los''])
      = others @ [los]"
    using assms(2) by (simp add: others_def los_def)
  from assms(1) obtain m4 where gl: "geometry_loop e (others @ [los]) m4 = (None, md')"
    unfolding extract_geometry_metadata_def Let_def seqE_None fs by blast
  then obtain m where "geometry_file e los m = (None, md')"
    unfolding geometry_loop_snoc by blast
  from geometry_file_los [OF this [unfolded los_def]] obtain data where
    d: "read_data e los (Some ''az'') = Inr data"
    and h: "md' = m(''HEADING'' \<mapsto> VStr (str_pixel e (heading data)))"
    unfolding los_def by blast
  have "md' ''HEADING'' = Some (VStr (str_pixel e (heading data)))"
    using h by simp
  moreover have "nonzero_pixels data = [] \<longrightarrow> heading data = NaN"
    by (simp add: heading_value)
  moreover have "nonzero_pixels data \<noteq> [] \<longrightarrow>
           (\<exists>h. heading data = Num h
              \<and> h = - (270 + mean (nonzero_pixels data))
                     - np_round (- (270 + mean (nonzero_pixels data)) / 360) * 360
              \<and> - 180 \<le> h \<and> h \<le> 180)"
    using reduced_range [of "- (270 + mean (nonzero_pixels data))"]
    by (simp add: heading_value)
  ultimately show ?thesis
    using d unfolding los_def by blast
qed

theorem heading_in_range_witness:
  "\<exists>md'. extract_geometry_metadata demo_env demo_state ''geom'' demo_metadata = (None, md')
     \<and> md' ''HEADING'' = Some (VStr ''-170.0'')
     \<and> heading [[Num (- 100), Num 0]] = Num (- 170)"
proof -
  have "fst (extract_geometry_metadata demo_env demo_state ''geom'' demo_metadata) = None"
    by code_simp
  then obtain md' where g: "extract_geometry_metadata demo_env demo_state ''geom'' demo_metadata = (None, md')"
    by (cases "extract_geometry_metadata demo_env demo_state ''geom'' demo_metadata") auto
  have f: "isfile demo_state (join (abspath demo_env ''geom'') ''los.rdr'')"
    by code_simp
  have r: "read_data demo_env (join (abspath demo_env ''geom'') ''los.rdr'') (Some ''az'')
      = Inr [[Num (- 100), Num 0]]"
    "heading [[Num (- 100), Num 0]] = Num (- 170)"
    "str_pixel demo_env (Num (- 170)) = ''-170.0''"
    by code_simp+
  from heading_in_range [OF g f] r have "md' ''HEADING'' = Some (VStr ''-170.0'')"
    by auto
  then show ?thesis using g r(2) by blast
qed

text \<open>
  Claim C6 as stated fails where every pixel of the \<^verbatim>\<open>az\<close> dataset is zero: the mean of
  no pixel is NaN, and \<^verbatim>\<open>HEADING\<close> is \<^verbatim>\<open>'nan'\<close>, which is no angle of the interval.
\<close>

theorem heading_nan_counterexample:
  "isfile demo_state (join (abspath demo_env ''dark'') ''los.rdr'')
   \<and> read_data demo_env (join (abspath demo_env ''dark'') ''los.rdr'') (Some ''az'') = Inr [[Num 0, Num 0]]
   \<and> fst (extract_geometry_metadata demo_env demo_state ''dark'' demo_metadata) = None
   \<and> snd (extract_geometry_metadata demo_env demo_state ''dark'' demo_metadata) ''HEADING''
       = Some (VStr ''nan'')
   \<and> \<not> (\<exists>h. heading [[Num 0, Num 0]] = Num h \<and> - 180 \<le> h \<and> h \<le> 180)"
proof -
  have "heading [[Num 0, Num 0]] = NaN"
    by code_simp
  then have "\<not> (\<exists>h. heading [[Num 0, Num 0]] = Num h \<and> - 180 \<le> h \<and> h \<le> 180)"
    by simp
  moreover have "isfile demo_state (join (abspath demo_env ''dark'') ''los.rdr'')"
    "read_data demo_env (join (abspath demo_env ''dark'') ''los.rdr'') (Some ''az'') = Inr [[Num 0, Num 0]]"
    "fst (extract_geometry_metadata demo_env demo_state ''dark'' demo_metadata) = None"
    "snd (extract_geometry_metadata demo_env demo_state ''dark'' demo_metadata) ''HEADING''
       = Some (VStr ''nan'')"
    by code_simp+
  ultimately show ?thesis by blast
qed


section \<open>Properties: \<^verbatim>\<open>extract_isce_metadata\<close>\<close>

lemma join_nonempty: "b \<noteq> [] \<Longrightarrow> join a b \<noteq> []"
  by (simp add: join_def)

lemma rsc_path_of_nonempty: "rsc_path_of meta_file rsc_file \<noteq> []"
  by (cases rsc_file) (simp_all add: rsc_path_of_def truthy_def join_nonempty)

lemma extract_isce_metadata_unfold:
  "extract_isce_metadata e st meta_file geom_dir rsc_file update_mode =
     (if update_mode \<and> run_or_skip st (rsc_path_of meta_file rsc_file) meta_file = ''skip''
      then (read_roipac_rsc st (rsc_path_of meta_file rsc_file), st)
      else extract_and_write e st meta_file geom_dir (rsc_path_of meta_file rsc_file))"
  by (cases rsc_file) (auto simp add: extract_isce_metadata_def rsc_path_of_def truthy_def Let_def)

lemma write_roipac_rsc_force:
  "write_roipac_rsc e md p False st =
     st\<lparr>files := (files st)(p \<mapsto> \<lparr>mtime = clock st, pairs = serialize e md\<rparr>)\<rparr>"
  by (simp add: write_roipac_rsc_def)

lemma all_str_str_values: "all_str (str_values e m)"
  by (auto simp add: all_str_def str_values_def)

lemma extract_and_write_Inr:
  assumes "extract_and_write e st meta_file geom_dir rsc = (Inr md, st')" "rsc \<noteq> []"
  shows "(\<exists>m. md = standardize_metadata e (str_values e m))
       \<and> st' = st\<lparr>files := (files st)(rsc \<mapsto> \<lparr>mtime = clock st, pairs = serialize e md\<rparr>)\<rparr>"
  using assms unfolding extract_and_write_def
  by (auto simp add: bindE_Inr Let_def write_roipac_rsc_force split: sum.splits)

lemma extract_and_write_Inl:
  assumes "extract_and_write e st meta_file geom_dir rsc = (Inl err, st')"
  shows "st' = st"
  using assms unfolding extract_and_write_def
  by (auto split: sum.splits)

lemma serialize_all_str:
  assumes "all_str md"
  shows "serialize e md k = Some s \<longleftrightarrow> md k = Some (VStr s)"
proof (cases "md k")
  case None
  then show ?thesis by (simp add: serialize_def)
next
  case (Some v)
  with assms obtain t where "v = VStr t" by (auto simp add: all_str_def)
  with Some show ?thesis by (simp add: serialize_def)
qed

text \<open>
  Claim C3.  Whenever \<^verbatim>\<open>extract_isce_metadata\<close> does not take the update-skip branch and
  returns, every value of the dict it returns is a string, and the sidecar file holds
  exactly these pairs, whatever the processor and the geometry directory.  The helper
  \<^verbatim>\<open>standardize_metadata\<close> is a parameter; it is assumed to give string values when it is
  given string values.
\<close>

theorem returned_values_are_strings:
  assumes std: "\<forall>m. all_str m \<longrightarrow> all_str (standardize_metadata e m)"
    and run: "\<not> (update_mode \<and> run_or_skip st (rsc_path_of meta_file rsc_file) meta_file = ''skip'')"
    and ret: "extract_isce_metadata e st meta_file geom_dir rsc_file update_mode = (Inr md, st')"
  shows "all_str md
     \<and> (\<exists>f. files st' (rsc_path_of meta_file rsc_file) = Some f
            \<and> (\<forall>k s. pairs f k = Some s \<longleftrightarrow> md k = Some (VStr s)))"
proof -
  from ret run have "extract_and_write e st meta_file geom_dir (rsc_path_of meta_file rsc_file) = (Inr md, st')"
    by (simp add: extract_isce_metadata_unfold split: if_splits)
  from extract_and_write_Inr [OF this rsc_path_of_nonempty] obtain m where
    md: "md = standardize_metadata e (str_values e m)"
    and st': "st' = st\<lparr>files := (files st)(rsc_path_of meta_file rsc_file
                  \<mapsto> \<lparr>mtime = clock st, pairs = serialize e md\<rparr>)\<rparr>"
    by blast
  have a: "all_str md"
    using std all_str_str_values md by blast
  then show ?thesis
    using st' by (simp add: serialize_all_str)
qed

text \<open>
  Claim C1, amended.  With \<^verbatim>\<open>update_mode=True\<close>, when the sidecar file exists and the
  metadata file is not newer, \<^verbatim>\<open>extract_isce_metadata\<close> returns the pairs read back from
  the sidecar file and leaves the file store as it is.  With \<^verbatim>\<open>update_mode=False\<close> the
  skip is never taken: the extraction runs, and when it returns the sidecar file is
  written anew with the returned metadata; when it raises, nothing is written.
\<close>

theorem update_skip:
  "(files st (rsc_path_of meta_file rsc_file) = Some fo \<and> files st meta_file = Some fi
      \<and> mtime fi \<le> mtime fo \<longrightarrow>
      extract_isce_metadata e st meta_file geom_dir rsc_file True
        = (Inr (\<lambda>k. map_option VStr (pairs fo k)), st))
   \<and> extract_isce_metadata e st meta_file geom_dir rsc_file False
        = extract_and_write e st meta_file geom_dir (rsc_path_of meta_file rsc_file)
   \<and> (extract_isce_metadata e st meta_file geom_dir rsc_file False = (Inr md, st') \<longrightarrow>
        st' = st\<lparr>files := (files st)(rsc_path_of meta_file rsc_file
                  \<mapsto> \<lparr>mtime = clock st, pairs = serialize e md\<rparr>)\<rparr>)
   \<and> (extract_isce_metadata e st meta_file geom_dir rsc_file False = (Inl err, st') \<longrightarrow> st' = st)"
proof -
  have "extract_isce_metadata e st meta_file geom_dir rsc_file True
        = (Inr (\<lambda>k. map_option VStr (pairs fo k)), st)"
    if "files st (rsc_path_of meta_file rsc_file) = Some fo" "files st meta_file = Some fi"
      "mtime fi \<le> mtime fo"
    using that by (simp add: extract_isce_metadata_unfold run_or_skip_def read_roipac_rsc_def)
  moreover have f: "extract_isce_metadata e st meta_file geom_dir rsc_file False
        = extract_and_write e st meta_file geom_dir (rsc_path_of meta_file rsc_file)"
    by (simp add: extract_isce_metadata_unfold)
  moreover have "st' = st\<lparr>files := (files st)(rsc_path_of meta_file rsc_file
                  \<mapsto> \<lparr>mtime = clock st, pairs = serialize e md\<rparr>)\<rparr>"
    if "extract_isce_metadata e st meta_file geom_dir rsc_file False = (Inr md, st')"
    using extract_and_write_Inr [OF that [unfolded f] rsc_path_of_nonempty] by blast
  moreover have "st' = st"
    if "extract_isce_metadata e st meta_file geom_dir rsc_file False = (Inl err, st')"
    using extract_and_write_Inl [OF that [unfolded f]] .
  ultimately show ?thesis by blast
qed

text \<open>
  Claim C1 as stated fails for a metadata file that \<^verbatim>\<open>get_processor\<close> does not recognise:
  with \<^verbatim>\<open>update_mode=False\<close> and an up-to-date sidecar file, the call raises ValueError
  and nothing is written.
\<close>

theorem forced_run_counterexample:
  "files demo_state ''notes/data.rsc'' = Some \<lparr>mtime = 2, pairs = [''PROCESSOR'' \<mapsto> ''isce'']\<rparr>
   \<and> files demo_state ''notes/readme.txt'' = Some \<lparr>mtime = 1, pairs = Map.empty\<rparr>
   \<and> run_or_skip demo_state ''notes/data.rsc'' ''notes/readme.txt'' = ''skip''
   \<and> extract_isce_metadata demo_env demo_state ''notes/readme.txt'' None None False
       = (Inl ValueError, demo_state)"
proof -
  have p: "rsc_path_of ''notes/readme.txt'' None = ''notes/data.rsc''"
    by code_simp
  have g: "get_processor demo_env demo_state (Some ''notes/readme.txt'') = Inl ValueError"
    by code_simp
  have "extract_isce_metadata demo_env demo_state ''notes/readme.txt'' None None False
       = (Inl ValueError, demo_state)"
    by (simp add: extract_isce_metadata_unfold p extract_and_write_def g bindE_simps)
  moreover have "run_or_skip demo_state ''notes/data.rsc'' ''notes/readme.txt'' = ''skip''"
    by code_simp
  moreover have "files demo_state ''notes/data.rsc'' = Some \<lparr>mtime = 2, pairs = [''PROCESSOR'' \<mapsto> ''isce'']\<rparr>"
    "files demo_state ''notes/readme.txt'' = Some \<lparr>mtime = 1, pairs = Map.empty\<rparr>"
    by (simp_all add: demo_state_def)
  ultimately show ?thesis by blast
qed

lemma demo_tops_returns:
  "\<exists>md. extract_tops_metadata demo_env ''master/IW1.xml'' = Inr (md, demo_burst)"
proof -
  have names: "basename ''master/IW1.xml'' = ''IW1.xml''" "splitext_root ''IW1.xml'' = ''IW1''"
    "join (dirname ''master/IW1.xml'') ''IW*.xml'' = ''master/IW*.xml''"
    "startswith ''IW1.xml'' ''IW''"
    by code_simp+
  have res:
    "bindE (dict_get TOPS_RESOLUTION ''IW1'') (\<lambda>t. dict_get t ''azimuthResolution'') = Inr (22.5)"
    "bindE (dict_get TOPS_RESOLUTION ''IW1'') (\<lambda>t. dict_get t ''rangeResolution'') = Inr (2.7)"
    by (simp_all add: TOPS_RESOLUTION_def dict_get_def bindE_def)
  have lp: "load_product demo_env ''master/IW1.xml'' = Inr (TopsProduct demo_product)"
    "glob demo_env ''master/IW*.xml'' = [''master/IW1.xml'']"
    by (simp_all add: load_product_def demo_env_def)
  have bs: "list_get (bursts demo_product) 0 = Inr demo_burst"
    "list_get (bursts demo_product) (- 1) = Inr demo_burst"
    by (simp_all add: demo_product_def list_get_def)
  have orb: "interpolateOrbit (burst_orbit demo_burst) (burst_sensingMid demo_burst)
      = Inr \<lparr>getPosition = [1, 0, 0], getVelocity = [3, 4, 0]\<rparr>"
    by (simp add: demo_burst_def demo_orbit_def)
  show ?thesis
    unfolding extract_tops_metadata_def
    by (simp add: lp bs orb names res obj_bursts_def obj_ascendingNodeTime_def bindE_simps Let_def
        split: prod.splits)
qed

lemma demo_extract_and_write:
  "\<exists>md st'. extract_and_write demo_env demo_state ''master/IW1.xml'' None ''master/data.rsc''
     = (Inr md, st')"
proof -
  have g: "get_processor demo_env demo_state (Some ''master/IW1.xml'') = Inr ''tops''"
    by code_simp
  from demo_tops_returns obtain m where
    t: "extract_tops_metadata demo_env ''master/IW1.xml'' = Inr (m, demo_burst)" ..
  show ?thesis
    by (simp add: extract_and_write_def g t bindE_simps Let_def)
qed

lemma demo_rsc_path: "rsc_path_of ''master/IW1.xml'' None = ''master/data.rsc''"
  by code_simp

theorem returned_values_are_strings_witness:
  "\<exists>md st' f. extract_isce_metadata demo_env demo_state ''master/IW1.xml'' None None False = (Inr md, st')
     \<and> all_str md
     \<and> files st' ''master/data.rsc'' = Some f
     \<and> pairs f = serialize demo_env md"
proof -
  from demo_extract_and_write obtain md st' where
    r: "extract_isce_metadata demo_env demo_state ''master/IW1.xml'' None None False = (Inr md, st')"
    by (auto simp add: extract_isce_metadata_unfold demo_rsc_path)
  have std: "\<forall>m. all_str m \<longrightarrow> all_str (standardize_metadata demo_env m)"
    by (simp add: demo_env_def)
  have run: "\<not> (False \<and> run_or_skip demo_state (rsc_path_of ''master/IW1.xml'' None) ''master/IW1.xml'' = ''skip'')"
    by simp
  from returned_values_are_strings [OF std run r] obtain f where
    a: "all_str md" and f: "files st' ''master/data.rsc'' = Some f"
    and p: "\<forall>k s. pairs f k = Some s \<longleftrightarrow> md k = Some (VStr s)"
    by (auto simp add: demo_rsc_path)
  have "pairs f k = serialize demo_env md k" for k
  proof (cases "pairs f k")
    case None
    have "serialize demo_env md k = None"
    proof (rule ccontr)
      assume "serialize demo_env md k \<noteq> None"
      then obtain t where "serialize demo_env md k = Some t" by blast
      then have "md k = Some (VStr t)"
        using serialize_all_str [OF a] by blast
      then have "pairs f k = Some t"
        using p by blast
      with None show False by simp
    qed
    with None show ?thesis by simp
  next
    case (Some s)
    then show ?thesis
      using p serialize_all_str [OF a, of demo_env k s] by simp
  qed
  then have "pairs f = serialize demo_env md" by (rule ext)
  with r a f show ?thesis by blast
qed

theorem update_skip_witness:
  "extract_isce_metadata demo_env demo_state ''master/IW1.xml'' None None True
     = (Inr (\<lambda>k. map_option VStr ([''PROCESSOR'' \<mapsto> ''isce''] k)), demo_state)
   \<and> (\<exists>md. extract_isce_metadata demo_env demo_state ''master/IW1.xml'' None None False
     = (Inr md, demo_state\<lparr>files := (files demo_state)(''master/data.rsc''
          \<mapsto> \<lparr>mtime = 5, pairs = serialize demo_env md\<rparr>)\<rparr>))"
proof -
  have fs: "files demo_state (rsc_path_of ''master/IW1.xml'' None)
      = Some \<lparr>mtime = 2, pairs = [''PROCESSOR'' \<mapsto> ''isce'']\<rparr>"
    "files demo_state ''master/IW1.xml'' = Some \<lparr>mtime = 1, pairs = Map.empty\<rparr>"
    by (simp_all add: demo_rsc_path demo_state_def)
  have c: "clock demo_state = 5"
    by (simp add: demo_state_def)
  from demo_extract_and_write obtain md st' where
    r: "extract_isce_metadata demo_env demo_state ''master/IW1.xml'' None None False = (Inr md, st')"
    by (auto simp add: extract_isce_metadata_unfold demo_rsc_path)
  note inst = update_skip [of demo_state "''master/IW1.xml''" None
      "\<lparr>mtime = 2, pairs = [''PROCESSOR'' \<mapsto> ''isce'']\<rparr>" "\<lparr>mtime = 1, pairs = Map.empty\<rparr>"
      demo_env None md st']
  from inst fs have "extract_isce_metadata demo_env demo_state ''master/IW1.xml'' None None True
     = (Inr (\<lambda>k. map_option VStr ([''PROCESSOR'' \<mapsto> ''isce''] k)), demo_state)"
    by simp
  moreover from inst r have "st' = demo_state\<lparr>files := (files demo_state)(''master/data.rsc''
          \<mapsto> \<lparr>mtime = 5, pairs = serialize demo_env md\<rparr>)\<rparr>"
    by (simp add: demo_rsc_path c)
  ultimately show ?thesis
    using r by blast
qed


section \<open>Properties: calling the geometry steps again\<close>

lemma multilook_loop_files:
  "files st' = files st \<Longrightarrow> multilook_loop e st' g l md = multilook_loop e st g l md"
  by (induction l arbitrary: md) (simp_all add: isfile_def Let_def split: list.splits)

lemma extract_multilook_number_files:
  assumes "files st' = files st"
  shows "extract_multilook_number e st' g md = extract_multilook_number e st g md"
  unfolding extract_multilook_number_def multilook_loop_files [OF assms] ..

lemma extract_geometry_metadata_files:
  assumes "files st' = files st"
  shows "extract_geometry_metadata e st' g md = extract_geometry_metadata e st g md"
proof -
  have "isfile st' = isfile st"
    by (rule ext) (simp add: isfile_def assms)
  then show ?thesis
    unfolding extract_geometry_metadata_def extract_multilook_number_files [OF assms] by simp
qed

lemma ratio_cong:
  "d' a = d a \<Longrightarrow> d' b = d b \<Longrightarrow> ratio d' a b = ratio d a b"
  by (simp add: ratio_def dict_get_def)

lemma ncorrlooks_cong:
  "d' ''RLOOKS'' = d ''RLOOKS'' \<Longrightarrow> d' ''ALOOKS'' = d ''ALOOKS'' \<Longrightarrow> ncorrlooks d' x y = ncorrlooks d x y"
  by (simp add: ncorrlooks_def dict_get_def)

lemma set_default_present: "d key \<noteq> None \<Longrightarrow> set_default key d = d"
  by (auto simp add: set_default_def)

lemma set_default_sets: "set_default key d key \<noteq> None"
  by (simp add: set_default_def)

lemma set_default_keeps: "d k \<noteq> None \<Longrightarrow> set_default key d k = d k"
  by (auto simp add: set_default_def)

lemma map_add_twice: "m ++ u ++ u = m ++ u"
  by (rule ext) (simp add: map_add_def split: option.splits)

lemma extract_multilook_number_again:
  assumes "extract_multilook_number e st g md = (r, md1)"
  shows "extract_multilook_number e st g md1 = (r, md1)"
proof -
  define L where "L = [''hgt'', ''lat'', ''lon'', ''los'']"
  define r0 where "r0 = fst (multilook_loop e st g L Map.empty)"
  define u where "u = snd (multilook_loop e st g L Map.empty)"
  have loop: "multilook_loop e st g L m = (r0, m ++ u)" for m
    using multilook_loop_add [of e st g L m] by (simp add: r0_def u_def)
  have domu: "dom u \<subseteq> {''ALOOKS'', ''RLOOKS''}"
    unfolding u_def by (rule multilook_loop_dom)
  define tail where "tail = (\<lambda>metadata.
        tryE (ratio metadata ''rangeResolution'' ''rangePixelSize'') metadata (\<lambda>rgfact.
        tryE (ratio metadata ''azimuthResolution'' ''azimuthPixelSize'') metadata (\<lambda>azfact.
        tryE (ncorrlooks metadata rgfact azfact) metadata (\<lambda>n.
        (None :: error option, metadata(''NCORRLOOKS'' \<mapsto> n))))))"
  have unfold: "extract_multilook_number e st g m =
      (case r0 of Some err \<Rightarrow> (Some err, m ++ u)
       | None \<Rightarrow> tail (set_default ''RLOOKS'' (set_default ''ALOOKS'' (m ++ u))))" for m
    by (cases r0) (simp_all add: extract_multilook_number_def L_def [symmetric] loop seqE_simps
        Let_def tail_def)
  show ?thesis
  proof (cases r0)
    case (Some err)
    then have "r = Some err" "md1 = md ++ u"
      using assms unfold [of md] by simp_all
    then show ?thesis
      using Some unfold [of md1] by (simp add: map_add_twice)
  next
    case None
    define d where "d = set_default ''RLOOKS'' (set_default ''ALOOKS'' (md ++ u))"
    have t: "tail d = (r, md1)"
      using assms unfold [of md] None by (simp add: d_def)
    have has: "d ''ALOOKS'' \<noteq> None" "d ''RLOOKS'' \<noteq> None"
      unfolding d_def using set_default_sets [of "''ALOOKS''" "md ++ u"]
      by (simp_all add: set_default_sets set_default_keeps)
    have du: "d k = u k" if "k \<in> dom u" for k
    proof -
      from that have "(md ++ u) k = u k" "(md ++ u) k \<noteq> None"
        by (auto simp add: map_add_dom_app_simps)
      then show ?thesis
        unfolding d_def by (simp add: set_default_keeps)
    qed
    have md1_cases: "md1 = d \<or> (\<exists>n. md1 = d(''NCORRLOOKS'' \<mapsto> n))"
      using t unfolding tail_def
      by (auto simp add: tryE_def split: sum.splits)
    have same: "md1 k = d k" if "k \<noteq> ''NCORRLOOKS''" for k
      using md1_cases that by auto
    have "md1 ++ u = md1"
    proof (rule ext)
      fix k
      show "(md1 ++ u) k = md1 k"
      proof (cases "k \<in> dom u")
        case True
        then have "k \<noteq> ''NCORRLOOKS''" using domu by auto
        then show ?thesis
          using True du same by (simp add: map_add_dom_app_simps)
      next
        case False
        then show ?thesis by (simp add: map_add_dom_app_simps)
      qed
    qed
    moreover have "set_default ''RLOOKS'' (set_default ''ALOOKS'' md1) = md1"
      using has same by (simp add: set_default_present)
    ultimately have again: "extract_multilook_number e st g md1 = tail md1"
      using unfold [of md1] None by simp
    have rg: "ratio md1 ''rangeResolution'' ''rangePixelSize'' = ratio d ''rangeResolution'' ''rangePixelSize''"
      by (rule ratio_cong) (simp_all add: same)
    have az: "ratio md1 ''azimuthResolution'' ''azimuthPixelSize'' = ratio d ''azimuthResolution'' ''azimuthPixelSize''"
      by (rule ratio_cong) (simp_all add: same)
    have nc: "ncorrlooks md1 x y = ncorrlooks d x y" for x y
      by (rule ncorrlooks_cong) (simp_all add: same)
    have "tail md1 = (r, md1)"
      using md1_cases
    proof
      assume "md1 = d"
      then show ?thesis using t by simp
    next
      assume "\<exists>n. md1 = d(''NCORRLOOKS'' \<mapsto> n)"
      then obtain n where n: "md1 = d(''NCORRLOOKS'' \<mapsto> n)" ..
      show ?thesis
      proof (cases r)
        case None
        then have "\<exists>n'. md1 = d(''NCORRLOOKS'' \<mapsto> n') \<and> tail md1 = (None, md1(''NCORRLOOKS'' \<mapsto> n'))"
          using t unfolding tail_def rg az nc
          by (auto simp add: tryE_def split: sum.splits)
        then show ?thesis
          using None by auto
      next
        case (Some err)
        then have "md1 = d"
          using t unfolding tail_def
          by (auto simp add: tryE_def split: sum.splits)
        then show ?thesis using t by simp
      qed
    qed
    with again show ?thesis by simp
  qed
qed

lemma extract_geometry_metadata_fails:
  assumes "extract_multilook_number e st g md = (Some err, md1)"
  shows "extract_geometry_metadata e st g md = (Some err, md1)"
  using assms by (simp add: extract_geometry_metadata_def seqE_simps)

text \<open>
  Claim C5, amended.  On an unchanged file store, \<^verbatim>\<open>extract_multilook_number\<close> called again
  on the dict object it has just updated gives the same result and leaves the dict as it
  is; so it does when \<^verbatim>\<open>metadata\<close> is left to its default, the one dict object of the
  module.  \<^verbatim>\<open>extract_geometry_metadata\<close> with the default dict, which has no resolution
  entries, raises the same exception at every call.
\<close>

theorem repeated_calls:
  "(extract_multilook_number e st g md = (r, md1) \<longrightarrow>
      extract_multilook_number e st g md1 = (r, md1))
   \<and> (extract_multilook_number_default e st g = (res, st1) \<longrightarrow>
      extract_multilook_number_default e st1 g = (res, st1))
   \<and> (geometry_default st ''rangeResolution'' = None
        \<and> extract_geometry_metadata_default e st g = (res', st2) \<longrightarrow>
      fst res' \<noteq> None \<and> extract_geometry_metadata_default e st2 g = (res', st2))"
proof -
  have one: "extract_multilook_number e st g md1 = (r, md1)"
    if "extract_multilook_number e st g md = (r, md1)"
    using that by (rule extract_multilook_number_again)
  have two: "extract_multilook_number_default e st1 g = (res, st1)"
    if a: "extract_multilook_number_default e st g = (res, st1)"
  proof -
    obtain r0 d where c: "extract_multilook_number e st g (multilook_default st) = (r0, d)"
      by (cases "extract_multilook_number e st g (multilook_default st)") blast
    have res: "res = (r0, d)" and st1: "st1 = st\<lparr>multilook_default := d\<rparr>"
      using a c by (simp_all add: extract_multilook_number_default_def)
    have f: "files st1 = files st" and m: "multilook_default st1 = d"
      by (simp_all add: st1)
    have "extract_multilook_number e st1 g d = (r0, d)"
      using extract_multilook_number_again [OF c] extract_multilook_number_files [OF f] by simp
    then show ?thesis
      by (simp add: extract_multilook_number_default_def m res)
  qed
  have three: "fst res' \<noteq> None \<and> extract_geometry_metadata_default e st2 g = (res', st2)"
    if n: "geometry_default st ''rangeResolution'' = None"
      and a: "extract_geometry_metadata_default e st g = (res', st2)"
  proof -
    obtain r0 d where c: "extract_multilook_number e st g (geometry_default st) = (r0, d)"
      by (cases "extract_multilook_number e st g (geometry_default st)") blast
    have "r0 \<noteq> None"
    proof
      assume "r0 = None"
      with c multilook_result [of e st g "geometry_default st" d]
      have "num_at (geometry_default st) ''rangeResolution'' \<noteq> None" by auto
      with n show False by (simp add: num_at_def)
    qed
    then obtain err where r0: "r0 = Some err" by blast
    have g1: "extract_geometry_metadata e st g (geometry_default st) = (Some err, d)"
      using c r0 by (simp add: extract_geometry_metadata_fails)
    have res: "res' = (Some err, d)" and st2: "st2 = st\<lparr>geometry_default := d\<rparr>"
      using a g1 by (simp_all add: extract_geometry_metadata_default_def)
    have f: "files st2 = files st" and m: "geometry_default st2 = d"
      by (simp_all add: st2)
    have "extract_multilook_number e st2 g d = (Some err, d)"
      using extract_multilook_number_again [OF c] extract_multilook_number_files [OF f] r0 by simp
    then have "extract_geometry_metadata e st2 g d = (Some err, d)"
      by (rule extract_geometry_metadata_fails)
    then have "extract_geometry_metadata_default e st2 g = (res', st2)"
      by (simp add: extract_geometry_metadata_default_def m res)
    then show ?thesis
      by (simp add: res)
  qed
  from one two three show ?thesis by blast
qed

theorem repeated_calls_witness:
  "(\<exists>md1. extract_multilook_number demo_env demo_state ''geom'' demo_metadata = (None, md1)
      \<and> extract_multilook_number demo_env demo_state ''geom'' md1 = (None, md1))
   \<and> (\<exists>d st1. extract_multilook_number_default demo_env demo_state ''geom'' = ((Some KeyError, d), st1)
      \<and> extract_multilook_number_default demo_env st1 ''geom'' = ((Some KeyError, d), st1))
   \<and> (\<exists>d st2. extract_geometry_metadata_default demo_env demo_state ''geom'' = ((Some KeyError, d), st2)
      \<and> extract_geometry_metadata_default demo_env st2 ''geom'' = ((Some KeyError, d), st2))"
proof -
  have "fst (extract_multilook_number demo_env demo_state ''geom'' demo_metadata) = None"
    by code_simp
  then obtain md1 where 1: "extract_multilook_number demo_env demo_state ''geom'' demo_metadata = (None, md1)"
    by (cases "extract_multilook_number demo_env demo_state ''geom'' demo_metadata") auto
  have "fst (fst (extract_multilook_number_default demo_env demo_state ''geom'')) = Some KeyError"
    by code_simp
  then obtain d st1 where
    2: "extract_multilook_number_default demo_env demo_state ''geom'' = ((Some KeyError, d), st1)"
    by (cases "extract_multilook_number_default demo_env demo_state ''geom''") auto
  have "fst (fst (extract_geometry_metadata_default demo_env demo_state ''geom'')) = Some KeyError"
    by code_simp
  then obtain d' st2 where
    3: "extract_geometry_metadata_default demo_env demo_state ''geom'' = ((Some KeyError, d'), st2)"
    by (cases "extract_geometry_metadata_default demo_env demo_state ''geom''") auto
  have n: "geometry_default demo_state ''rangeResolution'' = None"
    by (simp add: demo_state_def)
  note inst = repeated_calls [of demo_env demo_state "''geom''" demo_metadata None md1
      "(Some KeyError, d)" st1 "(Some KeyError, d')" st2]
  from inst 1 have "extract_multilook_number demo_env demo_state ''geom'' md1 = (None, md1)"
    by blast
  moreover from inst 2 have "extract_multilook_number_default demo_env st1 ''geom'' = ((Some KeyError, d), st1)"
    by blast
  moreover from inst 3 n have "extract_geometry_metadata_default demo_env st2 ''geom'' = ((Some KeyError, d'), st2)"
    by blast
  ultimately show ?thesis
    using 1 2 3 by blast
qed

text \<open>
  Claim C5 as stated fails for \<^verbatim>\<open>extract_geometry_metadata\<close> on an explicit dict: the pixel
  sizes are multiplied in place, so a second call on the same dict starts from the
  multilooked sizes and returns other values.
\<close>

theorem geometry_twice_counterexample:
  "fst (extract_geometry_metadata demo_env demo_state ''geom'' demo_metadata) = None
   \<and> num_at (snd (extract_geometry_metadata demo_env demo_state ''geom'' demo_metadata))
         ''rangePixelSize'' = Some 6
   \<and> snd (extract_geometry_metadata demo_env demo_state ''geom'' demo_metadata) ''NCORRLOOKS''
         = Some (VFloat (3 / 2))
   \<and> fst (extract_geometry_metadata demo_env demo_state ''geom''
           (snd (extract_geometry_metadata demo_env demo_state ''geom'' demo_metadata))) = None
   \<and> num_at (snd (extract_geometry_metadata demo_env demo_state ''geom''
           (snd (extract_geometry_metadata demo_env demo_state ''geom'' demo_metadata))))
         ''rangePixelSize'' = Some 18
   \<and> snd (extract_geometry_metadata demo_env demo_state ''geom''
           (snd (extract_geometry_metadata demo_env demo_state ''geom'' demo_metadata)))
         ''NCORRLOOKS'' = Some (VFloat 9)"
  by (intro conjI; code_simp)


section \<open>Properties: the baselines\<close>
















section \<open>Properties: the sidecar files of a stack\<close>














end
